theory Spec2Isabelle
  imports Complex_Main "HOL-Library.Sublist"
begin

section \<open>Permission policy (lib/auth/rbac)\<close>

text \<open>
  The action and entity arguments are TypeScript string-literal unions, so they are closed
  datatypes here. The role stays a string, as in the source: \<open>checkPermission\<close> indexes
  the permission matrix with whatever role string the caller has and denies when the
  lookup finds nothing.
\<close>

datatype action = Create | Read | Update | Delete | Approve

datatype entity = Employee | Contract | Letter | Attendance | Payroll | Benefit | User

fun action_str :: "action \<Rightarrow> string" where
  "action_str Create = ''create''"
| "action_str Read = ''read''"
| "action_str Update = ''update''"
| "action_str Delete = ''delete''"
| "action_str Approve = ''approve''"

fun entity_str :: "entity \<Rightarrow> string" where
  "entity_str Employee = ''employee''"
| "entity_str Contract = ''contract''"
| "entity_str Letter = ''letter''"
| "entity_str Attendance = ''attendance''"
| "entity_str Payroll = ''payroll''"
| "entity_str Benefit = ''benefit''"
| "entity_str User = ''user''"

text \<open>The permission matrix, role by role: \<open>None\<close> is a role the matrix has no row for.\<close>

fun HR_Admin_permissions :: "entity \<Rightarrow> action list" where
  "HR_Admin_permissions Employee = [Create, Read, Update, Delete]"
| "HR_Admin_permissions Contract = [Create, Read, Update, Delete]"
| "HR_Admin_permissions Letter = [Create, Read, Update, Delete]"
| "HR_Admin_permissions Attendance = [Create, Read, Update, Delete, Approve]"
| "HR_Admin_permissions Payroll = [Create, Read, Update, Delete, Approve]"
| "HR_Admin_permissions Benefit = [Create, Read, Update, Delete]"
| "HR_Admin_permissions User = [Create, Read, Update, Delete]"

fun HR_Manager_permissions :: "entity \<Rightarrow> action list" where
  "HR_Manager_permissions Employee = [Read, Update]"
| "HR_Manager_permissions Contract = [Read, Update]"
| "HR_Manager_permissions Letter = [Read, Update]"
| "HR_Manager_permissions Attendance = [Read, Update, Approve]"
| "HR_Manager_permissions Payroll = [Read, Update, Approve]"
| "HR_Manager_permissions Benefit = [Read, Update]"
| "HR_Manager_permissions User = [Read]"

fun Employee_permissions :: "entity \<Rightarrow> action list" where
  "Employee_permissions Employee = [Read]"
| "Employee_permissions Contract = [Read]"
| "Employee_permissions Letter = [Read]"
| "Employee_permissions Attendance = [Create, Read, Update]"
| "Employee_permissions Payroll = [Read]"
| "Employee_permissions Benefit = [Read]"
| "Employee_permissions User = []"

fun Finance_permissions :: "entity \<Rightarrow> action list" where
  "Finance_permissions Employee = [Read]"
| "Finance_permissions Contract = [Read]"
| "Finance_permissions Letter = [Read]"
| "Finance_permissions Attendance = [Read]"
| "Finance_permissions Payroll = [Read, Update, Approve]"
| "Finance_permissions Benefit = [Read]"
| "Finance_permissions User = []"

definition permissions :: "string \<Rightarrow> (entity \<Rightarrow> action list) option" where
  "permissions role =
     (if role = ''HR_Admin'' then Some HR_Admin_permissions
      else if role = ''HR_Manager'' then Some HR_Manager_permissions
      else if role = ''Employee'' then Some Employee_permissions
      else if role = ''Finance'' then Some Finance_permissions
      else None)"

definition checkPermission :: "string \<Rightarrow> action \<Rightarrow> entity \<Rightarrow> bool" where
  "checkPermission role act ent =
     (case permissions role of
        None \<Rightarrow> False
      | Some rolePermissions \<Rightarrow> act \<in> set (rolePermissions ent))"

text \<open>
  \<open>canAccessEmployee(role, employeeId, requestingUserId?)\<close>: the requesting user id is
  optional in the source, and an absent one never equals an employee id.
\<close>

definition canAccessEmployee :: "string \<Rightarrow> string \<Rightarrow> string option \<Rightarrow> bool" where
  "canAccessEmployee role employeeId requestingUserId =
     (if role = ''HR_Admin'' \<or> role = ''HR_Manager'' \<or> role = ''Finance'' then True
      else if role = ''Employee'' then Some employeeId = requestingUserId
      else False)"

section \<open>Finalising a turn: message identifiers and de-duplication (api/chat/route)\<close>

text \<open>
  A UI message as the route handles it: an identifier that may be missing or empty, a
  role and its parts. Only the identifier is inspected by \<open>onFinish\<close>.
\<close>

record message =
  mid :: "string option"
  mrole :: string
  mparts :: "string list"

text \<open>\<open>m?.id && String(m.id).length > 0\<close>\<close>

definition has_id :: "message \<Rightarrow> bool" where
  "has_id m = (case mid m of None \<Rightarrow> False | Some i \<Rightarrow> i \<noteq> [])"

text \<open>
  \<open>messages.map(m => ({...m, id: has id ? m.id : crypto.randomUUID()}))\<close>.
  \<open>crypto.randomUUID\<close> belongs to the runtime; \<open>uuid k\<close> stands for the value its
  \<open>k\<close>-th call returns during this run, and the counter is threaded through the map.
\<close>

fun normalized :: "(nat \<Rightarrow> string) \<Rightarrow> nat \<Rightarrow> message list \<Rightarrow> message list" where
  "normalized uuid k [] = []"
| "normalized uuid k (m # ms) =
     (if has_id m then m # normalized uuid k ms
      else m\<lparr>mid := Some (uuid k)\<rparr> # normalized uuid (Suc k) ms)"

text \<open>
  The de-duplication loop runs \<open>i\<close> from the last index down to 0; the first argument is
  the part of the array still to visit, last element first. \<open>seen\<close> is the \<open>Set\<close> of
  identifiers, \<open>deduped.unshift(msg)\<close> puts the message in front.
\<close>

fun dedup_loop :: "message list \<Rightarrow> string option set \<Rightarrow> message list \<Rightarrow> message list" where
  "dedup_loop [] seen deduped = deduped"
| "dedup_loop (msg # rest) seen deduped =
     (if mid msg \<notin> seen then dedup_loop rest (insert (mid msg) seen) (msg # deduped)
      else dedup_loop rest seen deduped)"

definition dedup :: "message list \<Rightarrow> message list" where
  "dedup ms = dedup_loop (rev ms) {} []"

text \<open>What \<open>onFinish\<close> hands to \<open>saveChat\<close>.\<close>

definition onFinish :: "(nat \<Rightarrow> string) \<Rightarrow> message list \<Rightarrow> message list" where
  "onFinish uuid messages = dedup (normalized uuid 0 messages)"

text \<open>
  Reference reading of "keep the last occurrence of every identifier, in arrival order":
  a message stays exactly when no later message carries its identifier.
\<close>

fun keep_last :: "message list \<Rightarrow> message list" where
  "keep_last [] = []"
| "keep_last (m # ms) = (if mid m \<in> mid ` set ms then keep_last ms else m # keep_last ms)"

definition occurs_once :: "message list \<Rightarrow> message \<Rightarrow> bool" where
  "occurs_once ms m = (length (filter (\<lambda>x. mid x = mid m) ms) = 1)"

text \<open>Two runs of the identifier generator, for the examples below.\<close>

definition uuid_run_a :: "nat \<Rightarrow> string" where
  "uuid_run_a k = ''6f1c7a52-0000-4000-8000-00000000000a''"

definition uuid_run_b :: "nat \<Rightarrow> string" where
  "uuid_run_b k = ''6f1c7a52-0000-4000-8000-00000000000b''"

definition msg_no_id :: message where
  "msg_no_id = \<lparr>mid = None, mrole = ''assistant'', mparts = [''hello'']\<rparr>"

section \<open>Records of the relational store\<close>

text \<open>
  The Prisma schema is not among the sources; each record below has the fields the tools
  read or write. A JavaScript number is an IEEE double: a finite double is the rational it
  denotes, and arithmetic on numbers rounds each exact result (\<open>roundNumber\<close> below);
  \<open>Infinity\<close> and \<open>NaN\<close> have no representation. A \<open>Date\<close> is its epoch
  milliseconds, a nullable or
  optional field as an \<open>option\<close>. Field names carry a prefix, since Isabelle record
  fields are global names. A column that a tool leaves out of \<open>create\<close> gets the
  schema's default, taken to be \<open>False\<close> for the two signature flags of a contract
  and null elsewhere.
\<close>

type_synonym date = int

datatype Gender = Male | Female | Other

datatype EmploymentStatus = Active | Onboarding | Terminated | Archived

datatype ContractType = Permanent | Temporary | Internship | Consultant

datatype LetterType = Confirmation | Termination | Promotion | Warning | OtherLetter

datatype LeaveType = Sick | Vacation | Unpaid | NoLeave

datatype LeaveStatus = Requested | LeaveApproved | Rejected

datatype PayrollStatus = Pending | Calculated | Verified | Approved | Paid

datatype BenefitType = Insurance | Housing | Transport | OtherBenefit

fun LeaveStatus_str :: "LeaveStatus \<Rightarrow> string" where
  "LeaveStatus_str Requested = ''Requested''"
| "LeaveStatus_str LeaveApproved = ''Approved''"
| "LeaveStatus_str Rejected = ''Rejected''"

fun PayrollStatus_str :: "PayrollStatus \<Rightarrow> string" where
  "PayrollStatus_str Pending = ''Pending''"
| "PayrollStatus_str Calculated = ''Calculated''"
| "PayrollStatus_str Verified = ''Verified''"
| "PayrollStatus_str Approved = ''Approved''"
| "PayrollStatus_str Paid = ''Paid''"

record employee =
  e_id :: string
  e_firstName :: string
  e_lastName :: string
  e_nationalId :: string
  e_dateOfBirth :: date
  e_gender :: Gender
  e_phoneNumber :: "string option"
  e_email :: "string option"
  e_address :: "string option"
  e_jobTitle :: string
  e_department :: string
  e_salary :: rat
  e_benefits :: "string option"
  e_leaveBalance :: rat
  e_hireDate :: date
  e_employmentStatus :: EmploymentStatus
  e_createdAt :: date

record contract =
  c_id :: string
  c_employeeId :: string
  c_contractType :: ContractType
  c_startDate :: date
  c_endDate :: "date option"
  c_signedByEmployee :: bool
  c_signedByHr :: bool
  c_documentUrl :: "string option"

record letter =
  l_id :: string
  l_employeeId :: string
  l_letterType :: LetterType
  l_content :: string
  l_documentUrl :: "string option"
  l_issuedDate :: date

record attendance =
  a_id :: string
  a_employeeId :: string
  a_date :: date
  a_checkInTime :: "date option"
  a_checkOutTime :: "date option"
  a_hoursWorked :: "rat option"
  a_overtimeHours :: "rat option"
  a_leaveType :: "LeaveType option"
  a_leaveStatus :: "LeaveStatus option"

record payroll =
  p_id :: string
  p_employeeId :: string
  p_periodStart :: date
  p_periodEnd :: date
  p_baseSalary :: rat
  p_overtimePay :: rat
  p_deductions :: "string option"
  p_netSalary :: rat
  p_status :: PayrollStatus
  p_paymentDate :: "date option"

record benefit =
  b_id :: string
  b_employeeId :: string
  b_benefitType :: BenefitType
  b_amount :: rat
  b_startDate :: date
  b_endDate :: "date option"

record user =
  u_id :: string
  u_email :: string
  u_role :: string

section \<open>Tool inputs (the zod input schemas of lib/hr/tools)\<close>

text \<open>
  A field that is \<open>.optional()\<close> is an \<open>option\<close>; a field with a \<open>.default\<close> always
  has a value by the time \<open>execute\<close> runs. Enumerated fields are the datatypes above.
  \<open>limit\<close> is taken as a non-negative whole number.
\<close>

record createEmployee_input =
  ce_firstName :: string
  ce_lastName :: string
  ce_nationalId :: string
  ce_dateOfBirth :: string
  ce_gender :: Gender
  ce_phoneNumber :: "string option"
  ce_email :: "string option"
  ce_address :: "string option"
  ce_jobTitle :: string
  ce_department :: string
  ce_salary :: rat
  ce_benefits :: "string option"
  ce_leaveBalance :: rat

record updateEmployee_input =
  ue_employeeId :: string
  ue_firstName :: "string option"
  ue_lastName :: "string option"
  ue_phoneNumber :: "string option"
  ue_email :: "string option"
  ue_address :: "string option"
  ue_jobTitle :: "string option"
  ue_department :: "string option"
  ue_salary :: "rat option"
  ue_benefits :: "string option"
  ue_leaveBalance :: "rat option"
  ue_employmentStatus :: "EmploymentStatus option"

record getEmployee_input =
  ge_employeeId :: "string option"
  ge_name :: "string option"
  ge_department :: "string option"
  ge_limit :: nat

record createContract_input =
  cc_employeeId :: string
  cc_contractType :: ContractType
  cc_startDate :: string
  cc_endDate :: "string option"
  cc_documentUrl :: "string option"

record updateContract_input =
  uc_contractId :: string
  uc_contractType :: "ContractType option"
  uc_startDate :: "string option"
  uc_endDate :: "string option"
  uc_signedByEmployee :: "bool option"
  uc_signedByHr :: "bool option"
  uc_documentUrl :: "string option"

record getContract_input =
  gc_employeeId :: "string option"
  gc_contractId :: "string option"

record terminateContract_input =
  tc_contractId :: string
  tc_terminationDate :: string

record generateLetter_input =
  gl_employeeId :: string
  gl_letterType :: LetterType
  gl_content :: string
  gl_documentUrl :: "string option"

record recordAttendance_input =
  ra_employeeId :: string
  ra_date :: string
  ra_checkInTime :: "string option"
  ra_checkOutTime :: "string option"
  ra_hoursWorked :: "rat option"
  ra_overtimeHours :: rat
  ra_leaveType :: LeaveType

record updateAttendance_input =
  ua_attendanceId :: string
  ua_checkInTime :: "string option"
  ua_checkOutTime :: "string option"
  ua_hoursWorked :: "rat option"
  ua_overtimeHours :: "rat option"
  ua_leaveType :: "LeaveType option"

record getAttendance_input =
  ga_employeeId :: string
  ga_startDate :: string
  ga_endDate :: string

record approveLeave_input =
  al_attendanceId :: string
  al_status :: LeaveStatus

record requestLeave_input =
  rl_employeeId :: string
  rl_date :: string
  rl_leaveType :: LeaveType

record calculatePayroll_input =
  cp_employeeId :: string
  cp_periodStart :: string
  cp_periodEnd :: string
  cp_deductions :: "string option"

record getPayroll_input =
  gp_employeeId :: "string option"
  gp_payrollId :: "string option"
  gp_limit :: nat

record approvePayroll_input =
  ap_payrollId :: string
  ap_status :: PayrollStatus

record paySalary_input =
  ps_payrollId :: string
  ps_paymentDate :: string

record addBenefit_input =
  ab_employeeId :: string
  ab_benefitType :: BenefitType
  ab_amount :: rat
  ab_startDate :: string
  ab_endDate :: "string option"

record updateBenefit_input =
  ub_benefitId :: string
  ub_benefitType :: "BenefitType option"
  ub_amount :: "rat option"
  ub_startDate :: "string option"
  ub_endDate :: "string option"

record getAuditLogs_input =
  gal_entityType :: "string option"
  gal_entityId :: "string option"
  gal_userId :: "string option"
  gal_startDate :: "string option"
  gal_endDate :: "string option"
  gal_limit :: nat

text \<open>One invocation of a tool of \<open>hrTools\<close>: the tool's name with its validated input.\<close>

datatype tool_call =
    CreateEmployee createEmployee_input
  | UpdateEmployee updateEmployee_input
  | GetEmployee getEmployee_input
  | ArchiveEmployee string
  | ReactivateEmployee string
  | CreateContract createContract_input
  | UpdateContract updateContract_input
  | GetContract getContract_input
  | TerminateContract terminateContract_input
  | GenerateLetter generateLetter_input
  | GetLetters string
  | RecordAttendance recordAttendance_input
  | UpdateAttendance updateAttendance_input
  | GetAttendance getAttendance_input
  | ApproveLeave approveLeave_input
  | RequestLeave requestLeave_input
  | CalculatePayroll calculatePayroll_input
  | GetPayroll getPayroll_input
  | ApprovePayroll approvePayroll_input
  | PaySalary paySalary_input
  | AddBenefit addBenefit_input
  | UpdateBenefit updateBenefit_input
  | GetBenefits string
  | GetAuditLogs getAuditLogs_input

section \<open>Audit log, execution context, process state\<close>

text \<open>
  The detail payload of an audit entry is either the tool's whole input or a small object
  the tool builds; \<open>JSON.stringify\<close> of it is kept structured here.
\<close>

datatype audit_details = InputOf tool_call | Fields "(string \<times> string) list"

record auditLog =
  au_entityType :: string
  au_entityId :: string
  au_action :: string
  au_performedBy :: "string option"
  au_details :: "audit_details option"
  au_timestamp :: date

record ToolContext =
  userId :: "string option"
  role :: string

text \<open>
  Everything the server process and its database hold: the module-level variable
  \<open>currentContext\<close> of lib/hr/tools (one slot for the whole process), the tables, the
  conversations, and a counter for generated identifiers.
\<close>

record hr_state =
  currentContext :: "ToolContext option"
  employees :: "employee list"
  contracts :: "contract list"
  letters :: "letter list"
  attendanceRecords :: "attendance list"
  payrolls :: "payroll list"
  benefits :: "benefit list"
  users :: "user list"
  auditLogs :: "auditLog list"
  chats :: "(string \<times> message list) list"
  nextId :: nat

text \<open>JSON values, for the \<open>deductions\<close> payload of \<open>calculatePayroll\<close>.\<close>

datatype json =
    JNull
  | JBool bool
  | JNumber rat
  | JString string
  | JArray "json list"
  | JObject "(string \<times> json) list"

text \<open>
  A thrown JavaScript value: \<open>new Error(message)\<close>, Prisma's error for an update whose
  \<open>where\<close> matches no row, a \<open>TypeError\<close> of the runtime, and the AI SDK's
  \<open>TypeValidationError\<close>.
\<close>

datatype error = Error string | RecordNotFound | TypeError string | TypeValidationError

text \<open>
  What the code takes from its runtime and its libraries: identifier generation of the
  store, the clock, \<open>new Date(string)\<close>, the database's case-insensitive substring
  match, \<open>JSON.parse\<close> (\<open>None\<close> when it throws), the conversion of a string to a number
  (\<open>None\<close> for \<open>NaN\<close>), the rounding of an exact arithmetic result to a double, whether
  an audit insert succeeds, whether the conversation store accepts a new conversation,
  and the three calls the turn endpoint makes before it streams, each of which may throw:
  \<open>validateUIMessages\<close>, \<open>getEffectiveOpenAIConfig\<close> and \<open>convertToModelMessages\<close>.
\<close>

record env =
  genId :: "nat \<Rightarrow> string"
  now :: date
  parseDate :: "string \<Rightarrow> date"
  containsInsensitive :: "string \<Rightarrow> string \<Rightarrow> bool"
  jsonParse :: "string \<Rightarrow> json option"
  stringToNumber :: "string \<Rightarrow> rat option"
  roundNumber :: "rat \<Rightarrow> rat"
  auditWritable :: bool
  chatStoreWritable :: bool
  validateUIMessages :: "message list \<Rightarrow> error + message list"
  getEffectiveOpenAIConfig :: "error + unit"
  convertToModelMessages :: "message list \<Rightarrow> error + unit"

text \<open>What a tool returns, before \<open>JSON.stringify\<close>; \<open>Text\<close> is a plain string result.\<close>

datatype tool_result =
    Text string
  | EmployeeResult employee
  | EmployeeWithRelations employee "contract list" "letter list" "benefit list"
  | EmployeeList "employee list"
  | ContractResult contract
  | ContractWithEmployee contract "employee option"
  | ContractList "contract list"
  | LetterWithEmployee letter "employee option"
  | LetterList "letter list"
  | AttendanceResult attendance
  | AttendanceList "attendance list"
  | PayrollResult payroll
  | PayrollWithEmployee payroll "employee option"
  | PayrollList "payroll list"
  | BenefitResult benefit
  | BenefitList "benefit list"
  | AuditLogList "(auditLog \<times> user option) list"

section \<open>Execution context carrier and permission check (lib/hr/tools)\<close>

definition setToolContext :: "ToolContext \<Rightarrow> hr_state \<Rightarrow> hr_state" where
  "setToolContext context s = s\<lparr>currentContext := Some context\<rparr>"

definition getToolContext :: "hr_state \<Rightarrow> error + ToolContext" where
  "getToolContext s =
     (case currentContext s of
        None \<Rightarrow> Inl (Error ''Tool context not set'')
      | Some ctx \<Rightarrow> Inr ctx)"

definition unauthorized_message :: "string \<Rightarrow> action \<Rightarrow> entity \<Rightarrow> string" where
  "unauthorized_message r act ent =
     ''Unauthorized: '' @ r @ '' cannot '' @ action_str act @ '' '' @ entity_str ent"

definition requirePermission :: "string \<Rightarrow> action \<Rightarrow> entity \<Rightarrow> error + unit" where
  "requirePermission r act ent =
     (if \<not> checkPermission r act ent then Inl (Error (unauthorized_message r act ent))
      else Inr ())"

section \<open>Store and audit helpers\<close>

text \<open>
  \<open>x || null\<close>, and the test \<open>if (x)\<close>, on an optional string: the empty string counts
  as absent.
\<close>

definition nonempty :: "string option \<Rightarrow> string option" where
  "nonempty v = (case v of None \<Rightarrow> None | Some x \<Rightarrow> if x = [] then None else Some x)"

text \<open>\<open>if (input.x !== undefined) updateData.x = input.x\<close>\<close>

definition set_if_given :: "'a option \<Rightarrow> 'a \<Rightarrow> 'a" where
  "set_if_given v old = (case v of None \<Rightarrow> old | Some x \<Rightarrow> x)"

definition findUnique :: "('r \<Rightarrow> string) \<Rightarrow> string \<Rightarrow> 'r list \<Rightarrow> 'r option" where
  "findUnique key k rows = find (\<lambda>r. key r = k) rows"

text \<open>
  Prisma's \<open>update\<close> with \<open>where: {id}\<close>: it throws when no row has the id, and returns
  the updated row otherwise. Constraints of the schema (uniqueness, foreign keys) are not
  modelled: \<open>create\<close> appends.
\<close>

definition update_row ::
  "('r \<Rightarrow> string) \<Rightarrow> string \<Rightarrow> ('r \<Rightarrow> 'r) \<Rightarrow> 'r list \<Rightarrow> error + ('r \<times> 'r list)" where
  "update_row key k f rows =
     (case findUnique key k rows of
        None \<Rightarrow> Inl RecordNotFound
      | Some r \<Rightarrow> Inr (f r, map (\<lambda>x. if key x = k then f x else x) rows))"

text \<open>\<open>orderBy: {field: 'desc'}\<close>\<close>

definition order_desc :: "('r \<Rightarrow> int) \<Rightarrow> 'r list \<Rightarrow> 'r list" where
  "order_desc key rows = rev (sort_key key rows)"

text \<open>
  lib/audit/logger: \<open>logAction\<close> inserts one row and swallows a failed insert, so it
  never throws.
\<close>

definition logAction ::
  "env \<Rightarrow> string \<Rightarrow> string \<Rightarrow> string \<Rightarrow> string option \<Rightarrow> audit_details option
     \<Rightarrow> hr_state \<Rightarrow> hr_state" where
  "logAction E entityType entityId act uid details s =
     (if auditWritable E
      then s\<lparr>auditLogs := auditLogs s @
             [\<lparr>au_entityType = entityType, au_entityId = entityId, au_action = act,
               au_performedBy = nonempty uid, au_details = details,
               au_timestamp = now E\<rparr>]\<rparr>
      else s)"

section \<open>Employee tools\<close>

definition createEmployee ::
  "env \<Rightarrow> createEmployee_input \<Rightarrow> hr_state \<Rightarrow> (error + tool_result) \<times> hr_state" where
  "createEmployee E input s =
     (case getToolContext s of Inl err \<Rightarrow> (Inl err, s) | Inr ctx \<Rightarrow>
      (case requirePermission (role ctx) Create Employee of Inl err \<Rightarrow> (Inl err, s) | Inr _ \<Rightarrow>
        (let employee =
               \<lparr>e_id = genId E (nextId s),
                e_firstName = ce_firstName input,
                e_lastName = ce_lastName input,
                e_nationalId = ce_nationalId input,
                e_dateOfBirth = parseDate E (ce_dateOfBirth input),
                e_gender = ce_gender input,
                e_phoneNumber = ce_phoneNumber input,
                e_email = ce_email input,
                e_address = ce_address input,
                e_jobTitle = ce_jobTitle input,
                e_department = ce_department input,
                e_salary = ce_salary input,
                e_benefits = ce_benefits input,
                e_leaveBalance = ce_leaveBalance input,
                e_hireDate = now E,
                e_employmentStatus = Onboarding,
                e_createdAt = now E\<rparr>;
             s1 = s\<lparr>employees := employees s @ [employee], nextId := Suc (nextId s)\<rparr>
         in (Inr (EmployeeResult employee),
             logAction E ''Employee'' (e_id employee) ''Create'' (nonempty (userId ctx))
               (Some (InputOf (CreateEmployee input))) s1))))"

definition updateEmployee_data :: "updateEmployee_input \<Rightarrow> employee \<Rightarrow> employee" where
  "updateEmployee_data input e =
     e\<lparr>e_firstName := set_if_given (ue_firstName input) (e_firstName e),
       e_lastName := set_if_given (ue_lastName input) (e_lastName e),
       e_phoneNumber := (case ue_phoneNumber input of None \<Rightarrow> e_phoneNumber e | Some v \<Rightarrow> Some v),
       e_email := (case ue_email input of None \<Rightarrow> e_email e | Some v \<Rightarrow> Some v),
       e_address := (case ue_address input of None \<Rightarrow> e_address e | Some v \<Rightarrow> Some v),
       e_jobTitle := set_if_given (ue_jobTitle input) (e_jobTitle e),
       e_department := set_if_given (ue_department input) (e_department e),
       e_salary := set_if_given (ue_salary input) (e_salary e),
       e_benefits := (case ue_benefits input of None \<Rightarrow> e_benefits e | Some v \<Rightarrow> Some v),
       e_leaveBalance := set_if_given (ue_leaveBalance input) (e_leaveBalance e),
       e_employmentStatus := set_if_given (ue_employmentStatus input) (e_employmentStatus e)\<rparr>"

definition updateEmployee ::
  "env \<Rightarrow> updateEmployee_input \<Rightarrow> hr_state \<Rightarrow> (error + tool_result) \<times> hr_state" where
  "updateEmployee E input s =
     (case getToolContext s of Inl err \<Rightarrow> (Inl err, s) | Inr ctx \<Rightarrow>
      (case requirePermission (role ctx) Update Employee of Inl err \<Rightarrow> (Inl err, s) | Inr _ \<Rightarrow>
        if \<not> canAccessEmployee (role ctx) (ue_employeeId input) (userId ctx)
        then (Inl (Error ''Unauthorized: Cannot access this employee record''), s)
        else
          (case update_row e_id (ue_employeeId input) (updateEmployee_data input) (employees s) of
             Inl err \<Rightarrow> (Inl err, s)
           | Inr (employee, rows) \<Rightarrow>
               (Inr (EmployeeResult employee),
                logAction E ''Employee'' (e_id employee) ''Update'' (nonempty (userId ctx))
                  (Some (InputOf (UpdateEmployee input))) (s\<lparr>employees := rows\<rparr>)))))"

definition employee_search :: "env \<Rightarrow> getEmployee_input \<Rightarrow> employee \<Rightarrow> bool" where
  "employee_search E input e =
     ((case nonempty (ge_name input) of
         None \<Rightarrow> True
       | Some n \<Rightarrow> containsInsensitive E (e_firstName e) n \<or> containsInsensitive E (e_lastName e) n)
      \<and> (case nonempty (ge_department input) of
            None \<Rightarrow> True
          | Some d \<Rightarrow> containsInsensitive E (e_department e) d))"

definition getEmployee ::
  "env \<Rightarrow> getEmployee_input \<Rightarrow> hr_state \<Rightarrow> (error + tool_result) \<times> hr_state" where
  "getEmployee E input s =
     (case getToolContext s of Inl err \<Rightarrow> (Inl err, s) | Inr ctx \<Rightarrow>
      (case requirePermission (role ctx) Read Employee of Inl err \<Rightarrow> (Inl err, s) | Inr _ \<Rightarrow>
        (case nonempty (ge_employeeId input) of
           Some employeeId \<Rightarrow>
             (case findUnique e_id employeeId (employees s) of
                None \<Rightarrow> (Inr (Text ''Employee not found''), s)
              | Some employee \<Rightarrow>
                  if \<not> canAccessEmployee (role ctx) (e_id employee) (userId ctx)
                  then (Inl (Error ''Unauthorized: Cannot access this employee record''), s)
                  else
                    (Inr (EmployeeWithRelations employee
                            (filter (\<lambda>c. c_employeeId c = e_id employee) (contracts s))
                            (filter (\<lambda>l. l_employeeId l = e_id employee) (letters s))
                            (filter (\<lambda>b. b_employeeId b = e_id employee) (benefits s))),
                     logAction E ''Employee'' (e_id employee) ''Read'' (nonempty (userId ctx))
                       None s))
         | None \<Rightarrow>
             (let found = take (if ge_limit input = 0 then 10 else ge_limit input)
                            (order_desc e_createdAt (filter (employee_search E input) (employees s)));
                  accessibleEmployees =
                    filter (\<lambda>emp. canAccessEmployee (role ctx) (e_id emp) (userId ctx)) found
              in (Inr (EmployeeList accessibleEmployees), s)))))"

definition archiveEmployee ::
  "env \<Rightarrow> string \<Rightarrow> hr_state \<Rightarrow> (error + tool_result) \<times> hr_state" where
  "archiveEmployee E employeeId s =
     (case getToolContext s of Inl err \<Rightarrow> (Inl err, s) | Inr ctx \<Rightarrow>
      (case requirePermission (role ctx) Update Employee of Inl err \<Rightarrow> (Inl err, s) | Inr _ \<Rightarrow>
        (case update_row e_id employeeId (\<lambda>e. e\<lparr>e_employmentStatus := Archived\<rparr>) (employees s) of
           Inl err \<Rightarrow> (Inl err, s)
         | Inr (employee, rows) \<Rightarrow>
             (Inr (EmployeeResult employee),
              logAction E ''Employee'' (e_id employee) ''Update'' (nonempty (userId ctx))
                (Some (Fields [(''action'', ''archived'')])) (s\<lparr>employees := rows\<rparr>)))))"

definition reactivateEmployee ::
  "env \<Rightarrow> string \<Rightarrow> hr_state \<Rightarrow> (error + tool_result) \<times> hr_state" where
  "reactivateEmployee E employeeId s =
     (case getToolContext s of Inl err \<Rightarrow> (Inl err, s) | Inr ctx \<Rightarrow>
      (case requirePermission (role ctx) Update Employee of Inl err \<Rightarrow> (Inl err, s) | Inr _ \<Rightarrow>
        (case update_row e_id employeeId (\<lambda>e. e\<lparr>e_employmentStatus := Active\<rparr>) (employees s) of
           Inl err \<Rightarrow> (Inl err, s)
         | Inr (employee, rows) \<Rightarrow>
             (Inr (EmployeeResult employee),
              logAction E ''Employee'' (e_id employee) ''Update'' (nonempty (userId ctx))
                (Some (Fields [(''action'', ''reactivated'')])) (s\<lparr>employees := rows\<rparr>)))))"

section \<open>Contract tools\<close>

definition createContract ::
  "env \<Rightarrow> createContract_input \<Rightarrow> hr_state \<Rightarrow> (error + tool_result) \<times> hr_state" where
  "createContract E input s =
     (case getToolContext s of Inl err \<Rightarrow> (Inl err, s) | Inr ctx \<Rightarrow>
      (case requirePermission (role ctx) Create Contract of Inl err \<Rightarrow> (Inl err, s) | Inr _ \<Rightarrow>
        (let contract =
               \<lparr>c_id = genId E (nextId s),
                c_employeeId = cc_employeeId input,
                c_contractType = cc_contractType input,
                c_startDate = parseDate E (cc_startDate input),
                c_endDate = map_option (parseDate E) (nonempty (cc_endDate input)),
                c_signedByEmployee = False,
                c_signedByHr = False,
                c_documentUrl = cc_documentUrl input\<rparr>;
             s1 = s\<lparr>contracts := contracts s @ [contract], nextId := Suc (nextId s)\<rparr>
         in (Inr (ContractResult contract),
             logAction E ''Contract'' (c_id contract) ''Create'' (nonempty (userId ctx))
               (Some (InputOf (CreateContract input))) s1))))"

definition updateContract_data :: "env \<Rightarrow> updateContract_input \<Rightarrow> contract \<Rightarrow> contract" where
  "updateContract_data E input c =
     c\<lparr>c_contractType := set_if_given (uc_contractType input) (c_contractType c),
       c_startDate := (case uc_startDate input of None \<Rightarrow> c_startDate c | Some d \<Rightarrow> parseDate E d),
       c_endDate := (case uc_endDate input of
                       None \<Rightarrow> c_endDate c
                     | Some d \<Rightarrow> if d = [] then None else Some (parseDate E d)),
       c_signedByEmployee := set_if_given (uc_signedByEmployee input) (c_signedByEmployee c),
       c_signedByHr := set_if_given (uc_signedByHr input) (c_signedByHr c),
       c_documentUrl := (case uc_documentUrl input of None \<Rightarrow> c_documentUrl c | Some v \<Rightarrow> Some v)\<rparr>"

definition updateContract ::
  "env \<Rightarrow> updateContract_input \<Rightarrow> hr_state \<Rightarrow> (error + tool_result) \<times> hr_state" where
  "updateContract E input s =
     (case getToolContext s of Inl err \<Rightarrow> (Inl err, s) | Inr ctx \<Rightarrow>
      (case requirePermission (role ctx) Update Contract of Inl err \<Rightarrow> (Inl err, s) | Inr _ \<Rightarrow>
        (case update_row c_id (uc_contractId input) (updateContract_data E input) (contracts s) of
           Inl err \<Rightarrow> (Inl err, s)
         | Inr (contract, rows) \<Rightarrow>
             (Inr (ContractResult contract),
              logAction E ''Contract'' (c_id contract) ''Update'' (nonempty (userId ctx))
                (Some (InputOf (UpdateContract input))) (s\<lparr>contracts := rows\<rparr>)))))"

definition getContract ::
  "env \<Rightarrow> getContract_input \<Rightarrow> hr_state \<Rightarrow> (error + tool_result) \<times> hr_state" where
  "getContract E input s =
     (case getToolContext s of Inl err \<Rightarrow> (Inl err, s) | Inr ctx \<Rightarrow>
      (case requirePermission (role ctx) Read Contract of Inl err \<Rightarrow> (Inl err, s) | Inr _ \<Rightarrow>
        (case nonempty (gc_contractId input) of
           Some contractId \<Rightarrow>
             (case findUnique c_id contractId (contracts s) of
                Some contract \<Rightarrow>
                  (Inr (ContractWithEmployee contract
                          (findUnique e_id (c_employeeId contract) (employees s))), s)
              | None \<Rightarrow> (Inr (Text ''Contract not found''), s))
         | None \<Rightarrow>
             (case nonempty (gc_employeeId input) of
                Some employeeId \<Rightarrow>
                  (Inr (ContractList
                          (order_desc c_startDate
                             (filter (\<lambda>c. c_employeeId c = employeeId) (contracts s)))), s)
              | None \<Rightarrow> (Inr (Text ''Please provide either employeeId or contractId''), s)))))"

definition terminateContract ::
  "env \<Rightarrow> terminateContract_input \<Rightarrow> hr_state \<Rightarrow> (error + tool_result) \<times> hr_state" where
  "terminateContract E input s =
     (case getToolContext s of Inl err \<Rightarrow> (Inl err, s) | Inr ctx \<Rightarrow>
      (case requirePermission (role ctx) Update Contract of Inl err \<Rightarrow> (Inl err, s) | Inr _ \<Rightarrow>
        (case update_row c_id (tc_contractId input)
                (\<lambda>c. c\<lparr>c_endDate := Some (parseDate E (tc_terminationDate input))\<rparr>) (contracts s) of
           Inl err \<Rightarrow> (Inl err, s)
         | Inr (contract, rows) \<Rightarrow>
             (Inr (ContractResult contract),
              logAction E ''Contract'' (c_id contract) ''Update'' (nonempty (userId ctx))
                (Some (Fields [(''action'', ''terminated''),
                               (''terminationDate'', tc_terminationDate input)]))
                (s\<lparr>contracts := rows\<rparr>)))))"

section \<open>Letter tools\<close>

definition generateLetter ::
  "env \<Rightarrow> generateLetter_input \<Rightarrow> hr_state \<Rightarrow> (error + tool_result) \<times> hr_state" where
  "generateLetter E input s =
     (case getToolContext s of Inl err \<Rightarrow> (Inl err, s) | Inr ctx \<Rightarrow>
      (case requirePermission (role ctx) Create Letter of Inl err \<Rightarrow> (Inl err, s) | Inr _ \<Rightarrow>
        (let letter =
               \<lparr>l_id = genId E (nextId s),
                l_employeeId = gl_employeeId input,
                l_letterType = gl_letterType input,
                l_content = gl_content input,
                l_documentUrl = gl_documentUrl input,
                l_issuedDate = now E\<rparr>;
             s1 = s\<lparr>letters := letters s @ [letter], nextId := Suc (nextId s)\<rparr>
         in (Inr (LetterWithEmployee letter (findUnique e_id (l_employeeId letter) (employees s))),
             logAction E ''AdministrativeLetter'' (l_id letter) ''Create'' (nonempty (userId ctx))
               (Some (InputOf (GenerateLetter input))) s1))))"

definition getLetters ::
  "env \<Rightarrow> string \<Rightarrow> hr_state \<Rightarrow> (error + tool_result) \<times> hr_state" where
  "getLetters E employeeId s =
     (case getToolContext s of Inl err \<Rightarrow> (Inl err, s) | Inr ctx \<Rightarrow>
      (case requirePermission (role ctx) Read Letter of Inl err \<Rightarrow> (Inl err, s) | Inr _ \<Rightarrow>
        (Inr (LetterList
                (order_desc l_issuedDate (filter (\<lambda>l. l_employeeId l = employeeId) (letters s)))),
         s)))"

section \<open>Attendance tools\<close>

definition recordAttendance ::
  "env \<Rightarrow> recordAttendance_input \<Rightarrow> hr_state \<Rightarrow> (error + tool_result) \<times> hr_state" where
  "recordAttendance E input s =
     (case getToolContext s of Inl err \<Rightarrow> (Inl err, s) | Inr ctx \<Rightarrow>
      (case requirePermission (role ctx) Create Attendance of Inl err \<Rightarrow> (Inl err, s) | Inr _ \<Rightarrow>
        (let attendance =
               \<lparr>a_id = genId E (nextId s),
                a_employeeId = ra_employeeId input,
                a_date = parseDate E (ra_date input),
                a_checkInTime = map_option (parseDate E) (nonempty (ra_checkInTime input)),
                a_checkOutTime = map_option (parseDate E) (nonempty (ra_checkOutTime input)),
                a_hoursWorked = (case ra_hoursWorked input of
                                   None \<Rightarrow> None
                                 | Some h \<Rightarrow> if h = 0 then None else Some h),
                a_overtimeHours = Some (ra_overtimeHours input),
                a_leaveType = Some (ra_leaveType input),
                a_leaveStatus = None\<rparr>;
             s1 = s\<lparr>attendanceRecords := attendanceRecords s @ [attendance],
                    nextId := Suc (nextId s)\<rparr>
         in (Inr (AttendanceResult attendance),
             logAction E ''AttendanceRecord'' (a_id attendance) ''Create'' (nonempty (userId ctx))
               (Some (InputOf (RecordAttendance input))) s1))))"

definition updateAttendance_data ::
  "env \<Rightarrow> updateAttendance_input \<Rightarrow> attendance \<Rightarrow> attendance" where
  "updateAttendance_data E input a =
     a\<lparr>a_checkInTime := (case ua_checkInTime input of
                            None \<Rightarrow> a_checkInTime a | Some d \<Rightarrow> Some (parseDate E d)),
       a_checkOutTime := (case ua_checkOutTime input of
                             None \<Rightarrow> a_checkOutTime a | Some d \<Rightarrow> Some (parseDate E d)),
       a_hoursWorked := (case ua_hoursWorked input of None \<Rightarrow> a_hoursWorked a | Some h \<Rightarrow> Some h),
       a_overtimeHours := (case ua_overtimeHours input of
                              None \<Rightarrow> a_overtimeHours a | Some h \<Rightarrow> Some h),
       a_leaveType := (case ua_leaveType input of None \<Rightarrow> a_leaveType a | Some t \<Rightarrow> Some t)\<rparr>"

definition updateAttendance ::
  "env \<Rightarrow> updateAttendance_input \<Rightarrow> hr_state \<Rightarrow> (error + tool_result) \<times> hr_state" where
  "updateAttendance E input s =
     (case getToolContext s of Inl err \<Rightarrow> (Inl err, s) | Inr ctx \<Rightarrow>
      (case requirePermission (role ctx) Update Attendance of Inl err \<Rightarrow> (Inl err, s) | Inr _ \<Rightarrow>
        (case update_row a_id (ua_attendanceId input) (updateAttendance_data E input)
                (attendanceRecords s) of
           Inl err \<Rightarrow> (Inl err, s)
         | Inr (attendance, rows) \<Rightarrow>
             (Inr (AttendanceResult attendance),
              logAction E ''AttendanceRecord'' (a_id attendance) ''Update'' (nonempty (userId ctx))
                (Some (InputOf (UpdateAttendance input))) (s\<lparr>attendanceRecords := rows\<rparr>)))))"

definition attendance_in_range :: "string \<Rightarrow> date \<Rightarrow> date \<Rightarrow> attendance \<Rightarrow> bool" where
  "attendance_in_range employeeId gte lte a =
     (a_employeeId a = employeeId \<and> gte \<le> a_date a \<and> a_date a \<le> lte)"

definition getAttendance ::
  "env \<Rightarrow> getAttendance_input \<Rightarrow> hr_state \<Rightarrow> (error + tool_result) \<times> hr_state" where
  "getAttendance E input s =
     (case getToolContext s of Inl err \<Rightarrow> (Inl err, s) | Inr ctx \<Rightarrow>
      (case requirePermission (role ctx) Read Attendance of Inl err \<Rightarrow> (Inl err, s) | Inr _ \<Rightarrow>
        (Inr (AttendanceList
                (order_desc a_date
                   (filter (attendance_in_range (ga_employeeId input)
                              (parseDate E (ga_startDate input)) (parseDate E (ga_endDate input)))
                      (attendanceRecords s)))),
         s)))"

definition approveLeave ::
  "env \<Rightarrow> approveLeave_input \<Rightarrow> hr_state \<Rightarrow> (error + tool_result) \<times> hr_state" where
  "approveLeave E input s =
     (case getToolContext s of Inl err \<Rightarrow> (Inl err, s) | Inr ctx \<Rightarrow>
      (case requirePermission (role ctx) Approve Attendance of Inl err \<Rightarrow> (Inl err, s) | Inr _ \<Rightarrow>
        (case update_row a_id (al_attendanceId input)
                (\<lambda>a. a\<lparr>a_leaveStatus := Some (al_status input)\<rparr>) (attendanceRecords s) of
           Inl err \<Rightarrow> (Inl err, s)
         | Inr (attendance, rows) \<Rightarrow>
             (Inr (AttendanceResult attendance),
              logAction E ''AttendanceRecord'' (a_id attendance) ''Update'' (nonempty (userId ctx))
                (Some (Fields [(''action'', ''leave_approved''),
                               (''status'', LeaveStatus_str (al_status input))]))
                (s\<lparr>attendanceRecords := rows\<rparr>)))))"

definition requestLeave ::
  "env \<Rightarrow> requestLeave_input \<Rightarrow> hr_state \<Rightarrow> (error + tool_result) \<times> hr_state" where
  "requestLeave E input s =
     (case getToolContext s of Inl err \<Rightarrow> (Inl err, s) | Inr ctx \<Rightarrow>
      (case requirePermission (role ctx) Create Attendance of Inl err \<Rightarrow> (Inl err, s) | Inr _ \<Rightarrow>
        (let attendance =
               \<lparr>a_id = genId E (nextId s),
                a_employeeId = rl_employeeId input,
                a_date = parseDate E (rl_date input),
                a_checkInTime = None,
                a_checkOutTime = None,
                a_hoursWorked = None,
                a_overtimeHours = None,
                a_leaveType = Some (rl_leaveType input),
                a_leaveStatus = Some Requested\<rparr>;
             s1 = s\<lparr>attendanceRecords := attendanceRecords s @ [attendance],
                    nextId := Suc (nextId s)\<rparr>
         in (Inr (AttendanceResult attendance),
             logAction E ''AttendanceRecord'' (a_id attendance) ''Create'' (nonempty (userId ctx))
               (Some (InputOf (RequestLeave input))) s1))))"

section \<open>Payroll tools\<close>

text \<open>
  \<open>Object.values(v)\<close> on a parsed JSON value: the property values of an object, the
  elements of an array, the one-character strings of a string, nothing for a number or a
  boolean, and a \<open>TypeError\<close> for \<open>null\<close>.
\<close>

fun object_values :: "json \<Rightarrow> error + json list" where
  "object_values JNull = Inl (TypeError ''Cannot convert undefined or null to object'')"
| "object_values (JBool b) = Inr []"
| "object_values (JNumber n) = Inr []"
| "object_values (JString x) = Inr (map (\<lambda>c. JString [c]) x)"
| "object_values (JArray xs) = Inr xs"
| "object_values (JObject kvs) = Inr (map snd kvs)"

text \<open>
  \<open>Number(v)\<close> on a parsed JSON value, \<open>None\<close> for \<open>NaN\<close>. An array is converted
  through its string form: empty gives 0, one element gives that element's conversion
  (a boolean or an object inside gives \<open>NaN\<close>), more elements give \<open>NaN\<close>.
\<close>

fun js_Number :: "(string \<Rightarrow> rat option) \<Rightarrow> json \<Rightarrow> rat option" where
  "js_Number str JNull = Some 0"
| "js_Number str (JBool b) = Some (if b then 1 else 0)"
| "js_Number str (JNumber n) = Some n"
| "js_Number str (JString x) = str x"
| "js_Number str (JArray []) = Some 0"
| "js_Number str (JArray [JNull]) = Some 0"
| "js_Number str (JArray [JBool b]) = None"
| "js_Number str (JArray [JNumber n]) = Some n"
| "js_Number str (JArray [JString x]) = str x"
| "js_Number str (JArray [JArray ys]) = js_Number str (JArray ys)"
| "js_Number str (JArray [JObject kvs]) = None"
| "js_Number str (JArray (x # y # zs)) = None"
| "js_Number str (JObject kvs) = None"

text \<open>
  The four arithmetic operators on numbers: IEEE arithmetic returns the double nearest the
  exact result.
\<close>

definition num_add :: "env \<Rightarrow> rat \<Rightarrow> rat \<Rightarrow> rat" where
  "num_add E a b = roundNumber E (a + b)"

definition num_sub :: "env \<Rightarrow> rat \<Rightarrow> rat \<Rightarrow> rat" where
  "num_sub E a b = roundNumber E (a - b)"

definition num_mul :: "env \<Rightarrow> rat \<Rightarrow> rat \<Rightarrow> rat" where
  "num_mul E a b = roundNumber E (a * b)"

definition num_div :: "env \<Rightarrow> rat \<Rightarrow> rat \<Rightarrow> rat" where
  "num_div E a b = roundNumber E (a / b)"

text \<open>\<open>Number(val) || 0\<close>\<close>

definition number_or_zero :: "env \<Rightarrow> json \<Rightarrow> rat" where
  "number_or_zero E val = (case js_Number (stringToNumber E) val of None \<Rightarrow> 0 | Some n \<Rightarrow> n)"

text \<open>\<open>record.overtimeHours || 0\<close>\<close>

definition overtime_or_zero :: "attendance \<Rightarrow> rat" where
  "overtime_or_zero r = (case a_overtimeHours r of None \<Rightarrow> 0 | Some h \<Rightarrow> h)"

text \<open>
  \<open>deductionsObj\<close>: the empty object unless the input carries a non-empty string that
  \<open>JSON.parse\<close> accepts.
\<close>

definition deductionsObj :: "env \<Rightarrow> calculatePayroll_input \<Rightarrow> json" where
  "deductionsObj E input =
     (case nonempty (cp_deductions input) of
        None \<Rightarrow> JObject []
      | Some d \<Rightarrow> (case jsonParse E d of None \<Rightarrow> JObject [] | Some v \<Rightarrow> v))"

definition calculatePayroll ::
  "env \<Rightarrow> calculatePayroll_input \<Rightarrow> hr_state \<Rightarrow> (error + tool_result) \<times> hr_state" where
  "calculatePayroll E input s =
     (case getToolContext s of Inl err \<Rightarrow> (Inl err, s) | Inr ctx \<Rightarrow>
      (case requirePermission (role ctx) Create Payroll of Inl err \<Rightarrow> (Inl err, s) | Inr _ \<Rightarrow>
        (case findUnique e_id (cp_employeeId input) (employees s) of
           None \<Rightarrow> (Inl (Error ''Employee not found''), s)
         | Some employee \<Rightarrow>
             (let records =
                    filter (attendance_in_range (cp_employeeId input)
                              (parseDate E (cp_periodStart input)) (parseDate E (cp_periodEnd input)))
                      (attendanceRecords s);
                  totalOvertimeHours =
                    foldl (\<lambda>sum r. num_add E sum (overtime_or_zero r)) 0 records;
                  overtimePay =
                    num_mul E (num_mul E totalOvertimeHours (num_div E (e_salary employee) 160))
                      (3 / 2)
              in (case object_values (deductionsObj E input) of
                    Inl err \<Rightarrow> (Inl err, s)
                  | Inr vals \<Rightarrow>
                      (let totalDeductions =
                             foldl (\<lambda>sum val. num_add E sum (number_or_zero E val)) 0 vals;
                           netSalary =
                             num_sub E (num_add E (e_salary employee) overtimePay) totalDeductions;
                           payroll =
                             \<lparr>p_id = genId E (nextId s),
                              p_employeeId = cp_employeeId input,
                              p_periodStart = parseDate E (cp_periodStart input),
                              p_periodEnd = parseDate E (cp_periodEnd input),
                              p_baseSalary = e_salary employee,
                              p_overtimePay = overtimePay,
                              p_deductions = nonempty (cp_deductions input),
                              p_netSalary = netSalary,
                              p_status = Calculated,
                              p_paymentDate = None\<rparr>;
                           s1 = s\<lparr>payrolls := payrolls s @ [payroll], nextId := Suc (nextId s)\<rparr>
                       in (Inr (PayrollResult payroll),
                           logAction E ''Payroll'' (p_id payroll) ''Create'' (nonempty (userId ctx))
                             (Some (InputOf (CalculatePayroll input))) s1)))))))"

definition getPayroll ::
  "env \<Rightarrow> getPayroll_input \<Rightarrow> hr_state \<Rightarrow> (error + tool_result) \<times> hr_state" where
  "getPayroll E input s =
     (case getToolContext s of Inl err \<Rightarrow> (Inl err, s) | Inr ctx \<Rightarrow>
      (case requirePermission (role ctx) Read Payroll of Inl err \<Rightarrow> (Inl err, s) | Inr _ \<Rightarrow>
        (case nonempty (gp_payrollId input) of
           Some payrollId \<Rightarrow>
             (case findUnique p_id payrollId (payrolls s) of
                Some payroll \<Rightarrow>
                  (Inr (PayrollWithEmployee payroll
                          (findUnique e_id (p_employeeId payroll) (employees s))), s)
              | None \<Rightarrow> (Inr (Text ''Payroll not found''), s))
         | None \<Rightarrow>
             (case nonempty (gp_employeeId input) of
                Some employeeId \<Rightarrow>
                  (Inr (PayrollList
                          (take (if gp_limit input = 0 then 10 else gp_limit input)
                             (order_desc p_periodStart
                                (filter (\<lambda>p. p_employeeId p = employeeId) (payrolls s))))), s)
              | None \<Rightarrow> (Inr (Text ''Please provide either employeeId or payrollId''), s)))))"

definition approvePayroll ::
  "env \<Rightarrow> approvePayroll_input \<Rightarrow> hr_state \<Rightarrow> (error + tool_result) \<times> hr_state" where
  "approvePayroll E input s =
     (case getToolContext s of Inl err \<Rightarrow> (Inl err, s) | Inr ctx \<Rightarrow>
      (case requirePermission (role ctx) Approve Payroll of Inl err \<Rightarrow> (Inl err, s) | Inr _ \<Rightarrow>
        (case update_row p_id (ap_payrollId input)
                (\<lambda>p. p\<lparr>p_status := (if ap_status input = Approved then Approved else Verified)\<rparr>)
                (payrolls s) of
           Inl err \<Rightarrow> (Inl err, s)
         | Inr (payroll, rows) \<Rightarrow>
             (Inr (PayrollResult payroll),
              logAction E ''Payroll'' (p_id payroll) ''Update'' (nonempty (userId ctx))
                (Some (Fields [(''action'', ''approved''),
                               (''status'', PayrollStatus_str (ap_status input))]))
                (s\<lparr>payrolls := rows\<rparr>)))))"

definition paySalary ::
  "env \<Rightarrow> paySalary_input \<Rightarrow> hr_state \<Rightarrow> (error + tool_result) \<times> hr_state" where
  "paySalary E input s =
     (case getToolContext s of Inl err \<Rightarrow> (Inl err, s) | Inr ctx \<Rightarrow>
      (case requirePermission (role ctx) Update Payroll of Inl err \<Rightarrow> (Inl err, s) | Inr _ \<Rightarrow>
        (case update_row p_id (ps_payrollId input)
                (\<lambda>p. p\<lparr>p_status := Paid, p_paymentDate := Some (parseDate E (ps_paymentDate input))\<rparr>)
                (payrolls s) of
           Inl err \<Rightarrow> (Inl err, s)
         | Inr (payroll, rows) \<Rightarrow>
             (Inr (PayrollResult payroll),
              logAction E ''Payroll'' (p_id payroll) ''Update'' (nonempty (userId ctx))
                (Some (Fields [(''action'', ''paid''), (''paymentDate'', ps_paymentDate input)]))
                (s\<lparr>payrolls := rows\<rparr>)))))"

section \<open>Benefit tools\<close>

definition addBenefit ::
  "env \<Rightarrow> addBenefit_input \<Rightarrow> hr_state \<Rightarrow> (error + tool_result) \<times> hr_state" where
  "addBenefit E input s =
     (case getToolContext s of Inl err \<Rightarrow> (Inl err, s) | Inr ctx \<Rightarrow>
      (case requirePermission (role ctx) Create Benefit of Inl err \<Rightarrow> (Inl err, s) | Inr _ \<Rightarrow>
        (let benefit =
               \<lparr>b_id = genId E (nextId s),
                b_employeeId = ab_employeeId input,
                b_benefitType = ab_benefitType input,
                b_amount = ab_amount input,
                b_startDate = parseDate E (ab_startDate input),
                b_endDate = map_option (parseDate E) (nonempty (ab_endDate input))\<rparr>;
             s1 = s\<lparr>benefits := benefits s @ [benefit], nextId := Suc (nextId s)\<rparr>
         in (Inr (BenefitResult benefit),
             logAction E ''Benefit'' (b_id benefit) ''Create'' (nonempty (userId ctx))
               (Some (InputOf (AddBenefit input))) s1))))"

definition updateBenefit_data :: "env \<Rightarrow> updateBenefit_input \<Rightarrow> benefit \<Rightarrow> benefit" where
  "updateBenefit_data E input b =
     b\<lparr>b_benefitType := set_if_given (ub_benefitType input) (b_benefitType b),
       b_amount := set_if_given (ub_amount input) (b_amount b),
       b_startDate := (case ub_startDate input of None \<Rightarrow> b_startDate b | Some d \<Rightarrow> parseDate E d),
       b_endDate := (case ub_endDate input of
                       None \<Rightarrow> b_endDate b
                     | Some d \<Rightarrow> if d = [] then None else Some (parseDate E d))\<rparr>"

definition updateBenefit ::
  "env \<Rightarrow> updateBenefit_input \<Rightarrow> hr_state \<Rightarrow> (error + tool_result) \<times> hr_state" where
  "updateBenefit E input s =
     (case getToolContext s of Inl err \<Rightarrow> (Inl err, s) | Inr ctx \<Rightarrow>
      (case requirePermission (role ctx) Update Benefit of Inl err \<Rightarrow> (Inl err, s) | Inr _ \<Rightarrow>
        (case update_row b_id (ub_benefitId input) (updateBenefit_data E input) (benefits s) of
           Inl err \<Rightarrow> (Inl err, s)
         | Inr (benefit, rows) \<Rightarrow>
             (Inr (BenefitResult benefit),
              logAction E ''Benefit'' (b_id benefit) ''Update'' (nonempty (userId ctx))
                (Some (InputOf (UpdateBenefit input))) (s\<lparr>benefits := rows\<rparr>)))))"

definition getBenefits ::
  "env \<Rightarrow> string \<Rightarrow> hr_state \<Rightarrow> (error + tool_result) \<times> hr_state" where
  "getBenefits E employeeId s =
     (case getToolContext s of Inl err \<Rightarrow> (Inl err, s) | Inr ctx \<Rightarrow>
      (case requirePermission (role ctx) Read Benefit of Inl err \<Rightarrow> (Inl err, s) | Inr _ \<Rightarrow>
        (Inr (BenefitList
                (order_desc b_startDate (filter (\<lambda>b. b_employeeId b = employeeId) (benefits s)))),
         s)))"

section \<open>Audit tool\<close>

text \<open>lib/audit/logger \<open>getAuditLogs\<close>: the \<open>where\<close> clause built from the filters.\<close>

definition audit_filter ::
  "string option \<Rightarrow> string option \<Rightarrow> string option \<Rightarrow> date option \<Rightarrow> date option
     \<Rightarrow> auditLog \<Rightarrow> bool" where
  "audit_filter entityType entityId uid startDate endDate a =
     ((case nonempty entityType of None \<Rightarrow> True | Some t \<Rightarrow> au_entityType a = t)
      \<and> (case nonempty entityId of None \<Rightarrow> True | Some i \<Rightarrow> au_entityId a = i)
      \<and> (case nonempty uid of None \<Rightarrow> True | Some u \<Rightarrow> au_performedBy a = Some u)
      \<and> (case startDate of None \<Rightarrow> True | Some d \<Rightarrow> d \<le> au_timestamp a)
      \<and> (case endDate of None \<Rightarrow> True | Some d \<Rightarrow> au_timestamp a \<le> d))"

definition getAuditLogs ::
  "env \<Rightarrow> getAuditLogs_input \<Rightarrow> hr_state \<Rightarrow> (error + tool_result) \<times> hr_state" where
  "getAuditLogs E input s =
     (case getToolContext s of Inl err \<Rightarrow> (Inl err, s) | Inr ctx \<Rightarrow>
      if role ctx \<noteq> ''HR_Admin''
      then (Inl (Error ''Unauthorized: Only HR Admin can view audit logs''), s)
      else
        (let logs = take (if gal_limit input = 0 then 100 else gal_limit input)
                      (order_desc au_timestamp
                         (filter (audit_filter (gal_entityType input) (gal_entityId input)
                                    (gal_userId input)
                                    (map_option (parseDate E) (nonempty (gal_startDate input)))
                                    (map_option (parseDate E) (nonempty (gal_endDate input))))
                            (auditLogs s)))
         in (Inr (AuditLogList
                    (map (\<lambda>a. (a, (case au_performedBy a of
                                      None \<Rightarrow> None
                                    | Some u \<Rightarrow> findUnique u_id u (users s)))) logs)),
             s)))"

section \<open>The tool set\<close>

text \<open>\<open>hrTools\<close>: running the \<open>execute\<close> of the tool an invocation names.\<close>

fun execute :: "env \<Rightarrow> tool_call \<Rightarrow> hr_state \<Rightarrow> (error + tool_result) \<times> hr_state" where
  "execute E (CreateEmployee input) s = createEmployee E input s"
| "execute E (UpdateEmployee input) s = updateEmployee E input s"
| "execute E (GetEmployee input) s = getEmployee E input s"
| "execute E (ArchiveEmployee employeeId) s = archiveEmployee E employeeId s"
| "execute E (ReactivateEmployee employeeId) s = reactivateEmployee E employeeId s"
| "execute E (CreateContract input) s = createContract E input s"
| "execute E (UpdateContract input) s = updateContract E input s"
| "execute E (GetContract input) s = getContract E input s"
| "execute E (TerminateContract input) s = terminateContract E input s"
| "execute E (GenerateLetter input) s = generateLetter E input s"
| "execute E (GetLetters employeeId) s = getLetters E employeeId s"
| "execute E (RecordAttendance input) s = recordAttendance E input s"
| "execute E (UpdateAttendance input) s = updateAttendance E input s"
| "execute E (GetAttendance input) s = getAttendance E input s"
| "execute E (ApproveLeave input) s = approveLeave E input s"
| "execute E (RequestLeave input) s = requestLeave E input s"
| "execute E (CalculatePayroll input) s = calculatePayroll E input s"
| "execute E (GetPayroll input) s = getPayroll E input s"
| "execute E (ApprovePayroll input) s = approvePayroll E input s"
| "execute E (PaySalary input) s = paySalary E input s"
| "execute E (AddBenefit input) s = addBenefit E input s"
| "execute E (UpdateBenefit input) s = updateBenefit E input s"
| "execute E (GetBenefits employeeId) s = getBenefits E employeeId s"
| "execute E (GetAuditLogs input) s = getAuditLogs E input s"

section \<open>Conversation store and the turn endpoint (api/chat/route)\<close>

text \<open>
  Modelled from the spec: \<open>createChat\<close> of lib/db is not among the sources. It is the
  Conversation Store's \<open>Create() -> conversationId\<close>: a new, empty conversation under a
  generated identifier. An identifier names one conversation, so a generated identifier
  that is already in use makes it throw, as does a store that cannot be written.
\<close>

definition createChat :: "env \<Rightarrow> hr_state \<Rightarrow> error + (string \<times> hr_state)" where
  "createChat E s =
     (if chatStoreWritable E \<and> map_of (chats s) (genId E (nextId s)) = None
      then Inr (genId E (nextId s),
                s\<lparr>chats := chats s @ [(genId E (nextId s), [])], nextId := Suc (nextId s)\<rparr>)
      else Inl (Error ''Failed to create chat''))"

text \<open>
  Modelled from the spec: \<open>loadChat\<close> of lib/db is not among the sources. It is the
  Conversation Store's \<open>Load(conversationId)\<close>: the ordered sequence of messages, failing
  with NotFound if the conversation is absent.
\<close>

definition loadChat :: "string \<Rightarrow> hr_state \<Rightarrow> error + message list" where
  "loadChat chatId s =
     (case map_of (chats s) chatId of
        None \<Rightarrow> Inl (Error ''Chat not found'')
      | Some messages \<Rightarrow> Inr messages)"

text \<open>
  A POST request as the handler reads it: the user id of the verified bearer token
  (\<open>getAuthUser\<close> of lib/auth/jwt, \<open>None\<close> when the token is missing or invalid), the
  new messages and the optional conversation id of the body.
\<close>

record post_request =
  rq_authUser :: "string option"
  rq_messages :: "message list"
  rq_chatId :: "string option"

text \<open>
  The streamed response of a turn that got as far as generation: the conversation it
  writes to, whether that conversation was created by this request, the \<open>X-Chat-Id\<close>
  response header, and the messages handed to the model.
\<close>

record turn_response =
  t_currentChatId :: string
  t_isNewChat :: bool
  t_chatIdHeader :: "string option"
  t_validatedMessages :: "message list"

text \<open>
  How a POST ends: a response with an error status the handler returns itself, the
  streamed response, or an exception that leaves the handler.
\<close>

datatype post_response = Failed nat string | Streaming turn_response | Threw error

text \<open>
  POST from "Load previous messages from database" to the response. A
  \<open>TypeValidationError\<close> of \<open>validateUIMessages\<close> is caught and the turn goes on with
  the submitted messages only; any other error it throws is thrown again, and nothing
  catches what \<open>getEffectiveOpenAIConfig\<close> or \<open>convertToModelMessages\<close> throws.
\<close>

definition POST_generate ::
  "env \<Rightarrow> post_request \<Rightarrow> string \<Rightarrow> bool \<Rightarrow> hr_state \<Rightarrow> post_response \<times> hr_state" where
  "POST_generate E req currentChatId isNewChat s =
     (let previousMessages =
            (if \<not> isNewChat
             then (case loadChat currentChatId s of Inr ms \<Rightarrow> ms | Inl err \<Rightarrow> [])
             else []);
          allMessages = previousMessages @ rq_messages req
      in (case (case validateUIMessages E allMessages of
                  Inr ms \<Rightarrow> Inr ms
                | Inl err \<Rightarrow> if err = TypeValidationError then Inr (rq_messages req) else Inl err) of
            Inl err \<Rightarrow> (Threw err, s)
          | Inr validatedMessages \<Rightarrow>
              (case getEffectiveOpenAIConfig E of
                 Inl err \<Rightarrow> (Threw err, s)
               | Inr effective \<Rightarrow>
                   (case convertToModelMessages E validatedMessages of
                      Inl err \<Rightarrow> (Threw err, s)
                    | Inr modelMessages \<Rightarrow>
                        (Streaming \<lparr>t_currentChatId = currentChatId, t_isNewChat = isNewChat,
                                     t_chatIdHeader =
                                       (if isNewChat then Some currentChatId else None),
                                     t_validatedMessages = validatedMessages\<rparr>, s)))))"

definition POST :: "env \<Rightarrow> post_request \<Rightarrow> hr_state \<Rightarrow> post_response \<times> hr_state" where
  "POST E req s =
     (case rq_authUser req of
        None \<Rightarrow> (Failed 401 ''Unauthorized: Missing or invalid JWT token'', s)
      | Some authUserId \<Rightarrow>
          (case findUnique u_id authUserId (users s) of
             None \<Rightarrow> (Failed 401 ''Unauthorized: User not found'', s)
           | Some user \<Rightarrow>
               (let s1 = setToolContext \<lparr>userId = Some (u_id user), role = u_role user\<rparr> s
                in (case nonempty (rq_chatId req) of
                      None \<Rightarrow>
                        (case createChat E s1 of
                           Inl err \<Rightarrow> (Failed 500 ''Failed to create chat'', s1)
                         | Inr (newChatId, s2) \<Rightarrow> POST_generate E req newChatId True s2)
                    | Some chatId \<Rightarrow>
                        (case loadChat chatId s1 of
                           Inr ms \<Rightarrow> POST_generate E req chatId False s1
                         | Inl err \<Rightarrow>
                             (case createChat E s1 of
                                Inl createError \<Rightarrow> (Failed 500 ''Failed to create chat'', s1)
                              | Inr (newChatId, s2) \<Rightarrow> POST_generate E req newChatId True s2))))))"

section \<open>Turns sharing the process\<close>

text \<open>
  The server handles requests on one event loop: a turn runs until it awaits, and other
  turns run in between. A step of a turn is either its POST handler (which binds the tool
  context and returns the streaming response) or a tool invocation the model requests
  later, while the response streams. \<open>run_turns\<close> runs the steps of several turns in the
  order the event loop takes them, on the one process state, and collects what each tool
  invocation returned, tagged with its turn.
\<close>

datatype turn_step = Post post_request | Invoke tool_call

fun run_turns ::
  "env \<Rightarrow> (nat \<times> turn_step) list \<Rightarrow> hr_state \<Rightarrow> (nat \<times> (error + tool_result)) list \<times> hr_state" where
  "run_turns E [] s = ([], s)"
| "run_turns E ((t, Post req) # rest) s = run_turns E rest (snd (POST E req s))"
| "run_turns E ((t, Invoke call) # rest) s =
     (case execute E call s of
        (r, s1) \<Rightarrow> (case run_turns E rest s1 of (rs, s2) \<Rightarrow> ((t, r) # rs, s2)))"

section \<open>What each tool requires, for stating the claims\<close>

text \<open>
  The (action, entity) pair of the tool's \<open>requirePermission\<close> call; \<open>getAuditLogs\<close> has
  none, it compares the role itself.
\<close>

fun required_permission :: "tool_call \<Rightarrow> (action \<times> entity) option" where
  "required_permission (CreateEmployee _) = Some (Create, Employee)"
| "required_permission (UpdateEmployee _) = Some (Update, Employee)"
| "required_permission (GetEmployee _) = Some (Read, Employee)"
| "required_permission (ArchiveEmployee _) = Some (Update, Employee)"
| "required_permission (ReactivateEmployee _) = Some (Update, Employee)"
| "required_permission (CreateContract _) = Some (Create, Contract)"
| "required_permission (UpdateContract _) = Some (Update, Contract)"
| "required_permission (GetContract _) = Some (Read, Contract)"
| "required_permission (TerminateContract _) = Some (Update, Contract)"
| "required_permission (GenerateLetter _) = Some (Create, Letter)"
| "required_permission (GetLetters _) = Some (Read, Letter)"
| "required_permission (RecordAttendance _) = Some (Create, Attendance)"
| "required_permission (UpdateAttendance _) = Some (Update, Attendance)"
| "required_permission (GetAttendance _) = Some (Read, Attendance)"
| "required_permission (ApproveLeave _) = Some (Approve, Attendance)"
| "required_permission (RequestLeave _) = Some (Create, Attendance)"
| "required_permission (CalculatePayroll _) = Some (Create, Payroll)"
| "required_permission (GetPayroll _) = Some (Read, Payroll)"
| "required_permission (ApprovePayroll _) = Some (Approve, Payroll)"
| "required_permission (PaySalary _) = Some (Update, Payroll)"
| "required_permission (AddBenefit _) = Some (Create, Benefit)"
| "required_permission (UpdateBenefit _) = Some (Update, Benefit)"
| "required_permission (GetBenefits _) = Some (Read, Benefit)"
| "required_permission (GetAuditLogs _) = None"

section \<open>Rounding to a double\<close>

text \<open>
  IEEE 754 binary64, round to nearest, ties to even: a non-zero \<open>x\<close> with
  \<open>2 ^ e \<le> |x| < 2 ^ (e + 1)\<close> is rounded to a multiple of \<open>2 ^ (e - 52)\<close>, and of
  \<open>2 ^ (- 1074)\<close> in the subnormal range. A result past the largest double, which the
  runtime turns into \<open>Infinity\<close>, has no representation here. This is the rounding of
  the example environment.
\<close>

fun bit_length :: "nat \<Rightarrow> nat" where
  "bit_length n = (if n = 0 then 0 else Suc (bit_length (n div 2)))"

declare bit_length.simps [simp del]

definition floor_log2 :: "rat \<Rightarrow> int" where
  "floor_log2 a =
     (if 1 \<le> a then int (bit_length (nat \<lfloor>a\<rfloor>)) - 1
      else - int (bit_length (nat (\<lceil>1 / a\<rceil> - 1))))"

definition pow2 :: "int \<Rightarrow> rat" where
  "pow2 k = (if 0 \<le> k then 2 ^ nat k else 1 / 2 ^ nat (- k))"

definition round_half_even :: "rat \<Rightarrow> int" where
  "round_half_even x =
     (let f = \<lfloor>x\<rfloor>; d = x - of_int f
      in if d < 1 / 2 then f else if 1 / 2 < d then f + 1 else if even f then f else f + 1)"

definition round_binary64 :: "rat \<Rightarrow> rat" where
  "round_binary64 x =
     (if x = 0 then 0
      else (let q = max (floor_log2 \<bar>x\<bar> - 52) (- 1074)
            in sgn x * of_int (round_half_even (\<bar>x\<bar> / pow2 q)) * pow2 q))"

section \<open>A small company, for the examples\<close>

text \<open>
  Two employees, \<open>E1\<close> and \<open>E2\<close>; the user account of \<open>E1\<close> has role \<open>Employee\<close>
  (and, as the ownership check compares them, the same id as the employee record), the
  account \<open>A1\<close> has role \<open>HR_Admin\<close>. \<open>E1\<close> has 4 + 6 overtime hours in January 2024
  and a base salary of 1600.
\<close>

definition jan_1 :: date where "jan_1 = 1704067200000"

definition jan_10 :: date where "jan_10 = 1704844800000"

definition jan_20 :: date where "jan_20 = 1705708800000"

definition jan_31 :: date where "jan_31 = 1706659200000"

definition env0 :: env where
  "env0 =
     \<lparr>genId = (\<lambda>n. ''gen-'' @ replicate n (CHR ''i'')),
      now = jan_31,
      parseDate = (\<lambda>x. if x = ''2024-01-01'' then jan_1 else if x = ''2024-01-10'' then jan_10
                         else if x = ''2024-01-20'' then jan_20 else jan_31),
      containsInsensitive = (\<lambda>hay needle. list_ex (prefix needle) (suffixes hay)),
      jsonParse = (\<lambda>x. if x = ''{\"tax\":100,\"insurance\":50}''
                         then Some (JObject [(''tax'', JNumber 100), (''insurance'', JNumber 50)])
                         else if x = ''null'' then Some JNull else None),
      stringToNumber = (\<lambda>x. None),
      roundNumber = round_binary64,
      auditWritable = True,
      chatStoreWritable = True,
      validateUIMessages = Inr,
      getEffectiveOpenAIConfig = Inr (),
      convertToModelMessages = (\<lambda>ms. Inr ())\<rparr>"

definition employee_E1 :: employee where
  "employee_E1 =
     \<lparr>e_id = ''E1'', e_firstName = ''Ada'', e_lastName = ''Moreno'', e_nationalId = ''N-1'',
      e_dateOfBirth = 0, e_gender = Female, e_phoneNumber = None, e_email = None,
      e_address = None, e_jobTitle = ''Engineer'', e_department = ''R and D'', e_salary = 1600,
      e_benefits = None, e_leaveBalance = 12, e_hireDate = jan_1,
      e_employmentStatus = Active, e_createdAt = jan_1\<rparr>"

definition employee_E2 :: employee where
  "employee_E2 =
     \<lparr>e_id = ''E2'', e_firstName = ''Bo'', e_lastName = ''Lindqvist'', e_nationalId = ''N-2'',
      e_dateOfBirth = 0, e_gender = Male, e_phoneNumber = None, e_email = None,
      e_address = None, e_jobTitle = ''Accountant'', e_department = ''Finance'', e_salary = 2400,
      e_benefits = None, e_leaveBalance = 7, e_hireDate = jan_1,
      e_employmentStatus = Terminated, e_createdAt = jan_10\<rparr>"

definition contract_E2 :: contract where
  "contract_E2 =
     \<lparr>c_id = ''C2'', c_employeeId = ''E2'', c_contractType = Permanent, c_startDate = jan_1,
      c_endDate = None, c_signedByEmployee = True, c_signedByHr = True, c_documentUrl = None\<rparr>"

definition letter_E2 :: letter where
  "letter_E2 =
     \<lparr>l_id = ''L2'', l_employeeId = ''E2'', l_letterType = Warning, l_content = ''Late twice'',
      l_documentUrl = None, l_issuedDate = jan_10\<rparr>"

definition attendance_E1_a :: attendance where
  "attendance_E1_a =
     \<lparr>a_id = ''T1'', a_employeeId = ''E1'', a_date = jan_10, a_checkInTime = None,
      a_checkOutTime = None, a_hoursWorked = Some 12, a_overtimeHours = Some 4,
      a_leaveType = Some NoLeave, a_leaveStatus = None\<rparr>"

definition attendance_E1_b :: attendance where
  "attendance_E1_b =
     \<lparr>a_id = ''T2'', a_employeeId = ''E1'', a_date = jan_20, a_checkInTime = None,
      a_checkOutTime = None, a_hoursWorked = Some 14, a_overtimeHours = Some 6,
      a_leaveType = Some NoLeave, a_leaveStatus = None\<rparr>"

definition attendance_E2 :: attendance where
  "attendance_E2 =
     \<lparr>a_id = ''T3'', a_employeeId = ''E2'', a_date = jan_10, a_checkInTime = None,
      a_checkOutTime = None, a_hoursWorked = Some 8, a_overtimeHours = None,
      a_leaveType = Some NoLeave, a_leaveStatus = None\<rparr>"

definition payroll_E2 :: payroll where
  "payroll_E2 =
     \<lparr>p_id = ''P2'', p_employeeId = ''E2'', p_periodStart = jan_1, p_periodEnd = jan_31,
      p_baseSalary = 2400, p_overtimePay = 0, p_deductions = None, p_netSalary = 2400,
      p_status = Calculated, p_paymentDate = None\<rparr>"

definition benefit_E2 :: benefit where
  "benefit_E2 =
     \<lparr>b_id = ''B2'', b_employeeId = ''E2'', b_benefitType = Housing, b_amount = 300,
      b_startDate = jan_1, b_endDate = None\<rparr>"

definition user_E1 :: user where
  "user_E1 = \<lparr>u_id = ''E1'', u_email = ''ada@example.org'', u_role = ''Employee''\<rparr>"

definition user_A1 :: user where
  "user_A1 = \<lparr>u_id = ''A1'', u_email = ''root@example.org'', u_role = ''HR_Admin''\<rparr>"

definition state0 :: hr_state where
  "state0 =
     \<lparr>currentContext = None,
      employees = [employee_E1, employee_E2],
      contracts = [contract_E2],
      letters = [letter_E2],
      attendanceRecords = [attendance_E1_a, attendance_E1_b, attendance_E2],
      payrolls = [payroll_E2],
      benefits = [benefit_E2],
      users = [user_E1, user_A1],
      auditLogs = [],
      chats = [(''chat-1'', [])],
      nextId = 0\<rparr>"

definition ctx_E1 :: ToolContext where
  "ctx_E1 = \<lparr>userId = Some ''E1'', role = ''Employee''\<rparr>"

definition ctx_A1 :: ToolContext where
  "ctx_A1 = \<lparr>userId = Some ''A1'', role = ''HR_Admin''\<rparr>"

text \<open>The process state while a turn of \<open>E1\<close>, respectively of \<open>A1\<close>, is the only one running.\<close>

definition state_E1 :: hr_state where
  "state_E1 = setToolContext ctx_E1 state0"

definition state_A1 :: hr_state where
  "state_A1 = setToolContext ctx_A1 state0"

definition post_E1 :: post_request where
  "post_E1 = \<lparr>rq_authUser = Some ''E1'', rq_messages = [msg_no_id], rq_chatId = Some ''chat-1''\<rparr>"

definition post_A1 :: post_request where
  "post_A1 = \<lparr>rq_authUser = Some ''A1'', rq_messages = [msg_no_id], rq_chatId = None\<rparr>"


definition update_E2_salary :: updateEmployee_input where
  "update_E2_salary =
     \<lparr>ue_employeeId = ''E2'', ue_firstName = None, ue_lastName = None, ue_phoneNumber = None,
      ue_email = None, ue_address = None, ue_jobTitle = None, ue_department = None,
      ue_salary = Some 9000, ue_benefits = None, ue_leaveBalance = None,
      ue_employmentStatus = None\<rparr>"

definition get_E2 :: getEmployee_input where
  "get_E2 = \<lparr>ge_employeeId = Some ''E2'', ge_name = None, ge_department = None, ge_limit = 10\<rparr>"

definition all_audit_logs :: getAuditLogs_input where
  "all_audit_logs =
     \<lparr>gal_entityType = None, gal_entityId = None, gal_userId = None, gal_startDate = None,
      gal_endDate = None, gal_limit = 50\<rparr>"

definition update_T3_overtime :: updateAttendance_input where
  "update_T3_overtime =
     \<lparr>ua_attendanceId = ''T3'', ua_checkInTime = None, ua_checkOutTime = None,
      ua_hoursWorked = None, ua_overtimeHours = Some 40, ua_leaveType = None\<rparr>"

definition record_for_E2 :: recordAttendance_input where
  "record_for_E2 =
     \<lparr>ra_employeeId = ''E2'', ra_date = ''2024-01-20'', ra_checkInTime = None,
      ra_checkOutTime = None, ra_hoursWorked = Some 8, ra_overtimeHours = 0,
      ra_leaveType = NoLeave\<rparr>"

definition leave_for_E2 :: requestLeave_input where
  "leave_for_E2 = \<lparr>rl_employeeId = ''E2'', rl_date = ''2024-01-20'', rl_leaveType = Vacation\<rparr>"








section \<open>Notions used to state the claims\<close>

text \<open>An authorization error: a thrown \<open>Error\<close> whose message starts with "Unauthorized: ".\<close>

definition is_unauthorized :: "error \<Rightarrow> bool" where
  "is_unauthorized err = (case err of Error m \<Rightarrow> prefix ''Unauthorized: '' m | _ \<Rightarrow> False)"




section \<open>De-duplication: the loop against its reference reading\<close>

lemma dedup_loop_snoc:
  "dedup_loop (ys @ [x]) seen acc =
     (if mid x \<in> seen \<union> mid ` set ys then dedup_loop ys seen acc
      else x # dedup_loop ys seen acc)"
proof (induction ys arbitrary: seen acc)
  case Nil
  show ?case by simp
next
  case (Cons y ys)
  show ?case
    by (auto simp: Cons.IH)
qed

lemma dedup_keep_last: "dedup ms = keep_last ms"
proof (induction ms)
  case Nil
  show ?case by (simp add: dedup_def)
next
  case (Cons m ms)
  then show ?case by (simp add: dedup_def dedup_loop_snoc)
qed

lemma set_keep_last: "set (keep_last ms) \<subseteq> set ms"
  by (induction ms) auto

lemma ids_keep_last: "mid ` set (keep_last ms) = mid ` set ms"
  by (induction ms) auto

lemma distinct_keep_last: "distinct (map mid (keep_last ms))"
proof (induction ms)
  case Nil
  show ?case by simp
next
  case (Cons m ms)
  have "mid m \<notin> mid ` set ms \<Longrightarrow> mid m \<notin> mid ` set (keep_last ms)"
    by (simp add: ids_keep_last)
  with Cons show ?case by auto
qed

lemma keep_last_append:
  "keep_last (xs @ ys) = filter (\<lambda>m. mid m \<notin> mid ` set ys) (keep_last xs) @ keep_last ys"
  by (induction xs) auto

lemma subseq_keep_last: "subseq (keep_last ms) ms"
  by (induction ms) (auto intro: subseq_Cons')

lemma mem_keep_last:
  "m \<in> set (keep_last xs) \<longleftrightarrow> (\<exists>pre post. xs = pre @ m # post \<and> mid m \<notin> mid ` set post)"
proof (induction xs)
  case Nil
  show ?case by simp
next
  case (Cons a xs)
  show ?case
  proof
    assume "m \<in> set (keep_last (a # xs))"
    then consider (hd) "m = a" "mid a \<notin> mid ` set xs" | (tl) "m \<in> set (keep_last xs)"
      by (auto split: if_splits)
    then show "\<exists>pre post. a # xs = pre @ m # post \<and> mid m \<notin> mid ` set post"
    proof cases
      case hd
      then have "a # xs = [] @ m # xs \<and> mid m \<notin> mid ` set xs" by simp
      then show ?thesis by blast
    next
      case tl
      with Cons.IH obtain pre post where "xs = pre @ m # post" "mid m \<notin> mid ` set post" by blast
      then have "a # xs = (a # pre) @ m # post \<and> mid m \<notin> mid ` set post" by simp
      then show ?thesis by blast
    qed
  next
    assume "\<exists>pre post. a # xs = pre @ m # post \<and> mid m \<notin> mid ` set post"
    then obtain pre post where eq: "a # xs = pre @ m # post" and nl: "mid m \<notin> mid ` set post" by blast
    show "m \<in> set (keep_last (a # xs))"
    proof (cases pre)
      case Nil
      with eq nl show ?thesis by auto
    next
      case (Cons b pre')
      with eq have "xs = pre' @ m # post" by simp
      with nl Cons.IH have "m \<in> set (keep_last xs)" by blast
      then show ?thesis by simp
    qed
  qed
qed

lemma count_pos: "x \<in> set xs \<Longrightarrow> 0 < length (filter (\<lambda>y. mid y = mid x) xs)"
  by (induction xs) auto

lemma filter_keep_last:
  "(\<And>m. m \<in> set xs \<Longrightarrow> P m \<Longrightarrow> length (filter (\<lambda>y. mid y = mid m) xs) = 1)
   \<Longrightarrow> filter P (keep_last xs) = filter P xs"
proof (induction xs)
  case Nil
  show ?case by simp
next
  case (Cons a xs)
  have tl: "\<And>m. m \<in> set xs \<Longrightarrow> P m \<Longrightarrow> length (filter (\<lambda>y. mid y = mid m) xs) = 1"
  proof -
    fix m assume m: "m \<in> set xs" "P m"
    then have "length (filter (\<lambda>y. mid y = mid m) (a # xs)) = 1" using Cons.prems[of m] by simp
    moreover have "0 < length (filter (\<lambda>y. mid y = mid m) xs)" using m count_pos by blast
    ultimately show "length (filter (\<lambda>y. mid y = mid m) xs) = 1" by (simp split: if_splits)
  qed
  then have IH: "filter P (keep_last xs) = filter P xs" by (rule Cons.IH)
  show ?case
  proof (cases "mid a \<in> mid ` set xs")
    case False
    then show ?thesis using IH by simp
  next
    case True
    then obtain b where b: "b \<in> set xs" "mid b = mid a" by auto
    have "\<not> P a"
    proof
      assume "P a"
      then have "length (filter (\<lambda>y. mid y = mid a) (a # xs)) = 1" using Cons.prems[of a] by simp
      moreover have "0 < length (filter (\<lambda>y. mid y = mid a) xs)" using count_pos[OF b(1)] b(2) by simp
      ultimately show False by simp
    qed
    with True IH show ?thesis by simp
  qed
qed

lemma normalized_has_id: "(\<And>k. uuid k \<noteq> []) \<Longrightarrow> m \<in> set (normalized uuid k ms) \<Longrightarrow> has_id m"
  by (induction ms arbitrary: k) (auto simp: has_id_def split: if_splits)

lemma length_normalized: "length (normalized uuid k ms) = length ms"
  by (induction ms arbitrary: k) auto

lemma normalized_nth:
  "i < length ms \<Longrightarrow>
   normalized uuid k ms ! i =
     (if has_id (ms ! i) then ms ! i
      else (ms ! i)\<lparr>mid := Some (uuid (k + length (filter (\<lambda>m. \<not> has_id m) (take i ms))))\<rparr>)"
proof (induction ms arbitrary: k i)
  case Nil
  then show ?case by simp
next
  case (Cons m ms)
  show ?case
  proof (cases i)
    case 0
    then show ?thesis by simp
  next
    case (Suc j)
    with Cons.prems have "j < length ms" by simp
    then show ?thesis using Suc Cons.IH[of j] by simp
  qed
qed

section \<open>Facts about the tools\<close>

lemmas tool_defs = createEmployee_def updateEmployee_def getEmployee_def archiveEmployee_def
  reactivateEmployee_def createContract_def updateContract_def getContract_def
  terminateContract_def generateLetter_def getLetters_def recordAttendance_def
  updateAttendance_def getAttendance_def approveLeave_def requestLeave_def
  calculatePayroll_def getPayroll_def approvePayroll_def paySalary_def addBenefit_def
  updateBenefit_def getBenefits_def getAuditLogs_def

lemmas example_defs = env0_def state0_def state_E1_def state_A1_def ctx_E1_def ctx_A1_def
  employee_E1_def employee_E2_def contract_E2_def letter_E2_def attendance_E1_a_def
  attendance_E1_b_def attendance_E2_def payroll_E2_def benefit_E2_def user_E1_def user_A1_def
  jan_1_def jan_10_def jan_20_def jan_31_def setToolContext_def

lemmas eval_defs = getToolContext_def requirePermission_def checkPermission_def permissions_def
  canAccessEmployee_def unauthorized_message_def nonempty_def findUnique_def update_row_def
  order_desc_def logAction_def set_if_given_def is_unauthorized_def

lemma getToolContext_bound: "currentContext s = Some ctx \<Longrightarrow> getToolContext s = Inr ctx"
  by (simp add: getToolContext_def)

lemma requirePermission_denied:
  "\<not> checkPermission r act ent \<Longrightarrow>
   requirePermission r act ent = Inl (Error (unauthorized_message r act ent))"
  by (simp add: requirePermission_def)

lemma requirePermission_granted:
  "checkPermission r act ent \<Longrightarrow> requirePermission r act ent = Inr ()"
  by (simp add: requirePermission_def)

lemma execute_permission_denied:
  assumes "currentContext s = Some ctx"
    and "required_permission call = Some (act, ent)"
    and "\<not> checkPermission (role ctx) act ent"
  shows "execute E call s = (Inl (Error (unauthorized_message (role ctx) act ent)), s)"
  using assms
  by (cases call)
     (simp_all add: tool_defs getToolContext_bound requirePermission_denied)

lemma execute_error_no_effect:
  assumes "execute E call s = (Inl err, s')"
  shows "s' = s"
  using assms
  by (cases call)
     (auto simp: tool_defs Let_def split: sum.splits option.splits if_splits prod.splits)

lemma unauthorized_message_is_unauthorized:
  "is_unauthorized (Error (unauthorized_message r act ent))"
  by (simp add: is_unauthorized_def unauthorized_message_def)

lemma updateEmployee_not_owner:
  assumes "currentContext s = Some ctx"
    and "\<not> canAccessEmployee (role ctx) (ue_employeeId input) (userId ctx)"
  shows "\<exists>err. updateEmployee E input s = (Inl err, s) \<and> is_unauthorized err"
proof (cases "checkPermission (role ctx) Update Employee")
  case True
  with assms show ?thesis
    by (simp add: updateEmployee_def getToolContext_bound requirePermission_granted
        is_unauthorized_def)
next
  case False
  with assms show ?thesis
    by (simp add: updateEmployee_def getToolContext_bound requirePermission_denied
        unauthorized_message_is_unauthorized)
qed

lemma getEmployee_not_owner:
  assumes "currentContext s = Some ctx"
    and "checkPermission (role ctx) Read Employee"
    and "nonempty (ge_employeeId input) = Some employeeId"
    and "findUnique e_id employeeId (employees s) = Some e"
    and "\<not> canAccessEmployee (role ctx) (e_id e) (userId ctx)"
  shows "getEmployee E input s =
           (Inl (Error ''Unauthorized: Cannot access this employee record''), s)"
  using assms
  by (simp add: getEmployee_def getToolContext_bound requirePermission_granted)

lemma getAuditLogs_not_admin:
  assumes "currentContext s = Some ctx" and "role ctx \<noteq> ''HR_Admin''"
  shows "getAuditLogs E input s =
           (Inl (Error ''Unauthorized: Only HR Admin can view audit logs''), s)"
  using assms by (simp add: getAuditLogs_def getToolContext_bound)

lemma Employee_cannot_update_employee: "\<not> checkPermission ''Employee'' Update Employee"
  by (simp add: checkPermission_def permissions_def)

lemma archive_needs_no_ownership_check:
  "checkPermission r Update Employee \<Longrightarrow> canAccessEmployee r employeeId uid"
  by (simp add: checkPermission_def permissions_def canAccessEmployee_def split: if_splits)

lemma contract_update_needs_no_ownership_check:
  "checkPermission r Update Contract \<Longrightarrow> canAccessEmployee r employeeId uid"
  by (simp add: checkPermission_def permissions_def canAccessEmployee_def split: if_splits)

lemma getEmployee_search_is_filtered:
  assumes "getEmployee E input s = (Inr (EmployeeList found), s')"
    and "currentContext s = Some ctx"
  shows "\<forall>emp \<in> set found. canAccessEmployee (role ctx) (e_id emp) (userId ctx)"
  using assms
  by (auto simp: getEmployee_def getToolContext_bound Let_def
      split: sum.splits option.splits if_splits)




section \<open>The claims\<close>

text \<open>
  C1. For every tool invocation whose authorization check fails, the tool aborts with an
  authorization error and has no side effect: the state after the call, audit log and
  tables included, is the state before it. A failed action-level check is reported as
  "Unauthorized: <role> cannot <action> <entity>", with the action and entity the tool
  requires; a caller who fails the ownership predicate on the target of \<open>updateEmployee\<close>
  is denied; \<open>getEmployee\<close> by id on a record the caller does not own is reported as
  "Unauthorized: Cannot access this employee record", and \<open>getAuditLogs\<close> by anyone
  but HR_Admin as "Unauthorized: Only HR Admin can view audit logs". No tool that ends in
  an error changes the state. In particular a caller of role Employee invoking
  \<open>updateEmployee\<close> on a record that is not the caller's own is denied with
  "Unauthorized: Employee cannot update employee", the record unchanged and no audit row
  written.
\<close>

theorem authorization_denial_has_no_effect:
  assumes "currentContext s = Some ctx"
  shows
    "(\<forall>act ent. required_permission call = Some (act, ent) \<and> \<not> checkPermission (role ctx) act ent
        \<longrightarrow> execute E call s = (Inl (Error (unauthorized_message (role ctx) act ent)), s)
            \<and> unauthorized_message (role ctx) act ent =
                ''Unauthorized: '' @ role ctx @ '' cannot '' @ action_str act @ '' '' @ entity_str ent)
     \<and> (\<not> canAccessEmployee (role ctx) (ue_employeeId upd) (userId ctx)
        \<longrightarrow> (\<exists>err. execute E (UpdateEmployee upd) s = (Inl err, s) \<and> is_unauthorized err))
     \<and> (checkPermission (role ctx) Read Employee \<and> nonempty (ge_employeeId get) = Some employeeId
          \<and> findUnique e_id employeeId (employees s) = Some e
          \<and> \<not> canAccessEmployee (role ctx) (e_id e) (userId ctx)
        \<longrightarrow> execute E (GetEmployee get) s =
              (Inl (Error ''Unauthorized: Cannot access this employee record''), s))
     \<and> (role ctx \<noteq> ''HR_Admin''
        \<longrightarrow> execute E (GetAuditLogs q) s =
              (Inl (Error ''Unauthorized: Only HR Admin can view audit logs''), s))
     \<and> (\<forall>err s'. execute E call s = (Inl err, s') \<longrightarrow> s' = s)
     \<and> (role ctx = ''Employee'' \<and> userId ctx \<noteq> Some (ue_employeeId upd)
        \<longrightarrow> execute E (UpdateEmployee upd) s =
              (Inl (Error ''Unauthorized: Employee cannot update employee''), s))"
proof -
  have a: "\<And>act ent. required_permission call = Some (act, ent) \<Longrightarrow>
             \<not> checkPermission (role ctx) act ent \<Longrightarrow>
             execute E call s = (Inl (Error (unauthorized_message (role ctx) act ent)), s)"
    using assms by (rule execute_permission_denied)
  have b: "\<not> canAccessEmployee (role ctx) (ue_employeeId upd) (userId ctx) \<Longrightarrow>
             \<exists>err. execute E (UpdateEmployee upd) s = (Inl err, s) \<and> is_unauthorized err"
    using assms updateEmployee_not_owner[where s = s and ctx = ctx and input = upd and E = E] by simp
  have c: "checkPermission (role ctx) Read Employee \<Longrightarrow>
           nonempty (ge_employeeId get) = Some employeeId \<Longrightarrow>
           findUnique e_id employeeId (employees s) = Some e \<Longrightarrow>
           \<not> canAccessEmployee (role ctx) (e_id e) (userId ctx) \<Longrightarrow>
           execute E (GetEmployee get) s =
             (Inl (Error ''Unauthorized: Cannot access this employee record''), s)"
    using assms getEmployee_not_owner[where s = s and ctx = ctx and input = get and employeeId = employeeId and e = e and E = E] by simp
  have d: "role ctx \<noteq> ''HR_Admin'' \<Longrightarrow>
           execute E (GetAuditLogs q) s =
             (Inl (Error ''Unauthorized: Only HR Admin can view audit logs''), s)"
    using assms getAuditLogs_not_admin[where s = s and ctx = ctx and input = q and E = E] by simp
  have e: "\<And>err s'. execute E call s = (Inl err, s') \<Longrightarrow> s' = s"
    by (rule execute_error_no_effect)
  have f: "role ctx = ''Employee'' \<Longrightarrow>
           execute E (UpdateEmployee upd) s =
             (Inl (Error ''Unauthorized: Employee cannot update employee''), s)"
  proof -
    assume r: "role ctx = ''Employee''"
    then have "\<not> checkPermission (role ctx) Update Employee"
      by (simp add: Employee_cannot_update_employee)
    from execute_permission_denied[OF assms _ this, where call = "UpdateEmployee upd" and E = E] r
    show ?thesis by (simp add: unauthorized_message_def)
  qed
  from a b c d e f show ?thesis
    by (simp add: unauthorized_message_def)
qed

text \<open>
  An Employee, \<open>E1\<close>, tries to raise the salary of \<open>E2\<close>, to read the record of
  \<open>E2\<close>, and to read the audit log.
\<close>

theorem authorization_denial_has_no_effect_witness:
  "currentContext state_E1 = Some ctx_E1
   \<and> role ctx_E1 = ''Employee''
   \<and> userId ctx_E1 \<noteq> Some (ue_employeeId update_E2_salary)
   \<and> \<not> checkPermission (role ctx_E1) Update Employee
   \<and> \<not> canAccessEmployee (role ctx_E1) (ue_employeeId update_E2_salary) (userId ctx_E1)
   \<and> execute env0 (UpdateEmployee update_E2_salary) state_E1 =
       (Inl (Error ''Unauthorized: Employee cannot update employee''), state_E1)
   \<and> employees state_E1 = [employee_E1, employee_E2]
   \<and> auditLogs state_E1 = []
   \<and> checkPermission (role ctx_E1) Read Employee
   \<and> findUnique e_id ''E2'' (employees state_E1) = Some employee_E2
   \<and> execute env0 (GetEmployee get_E2) state_E1 =
       (Inl (Error ''Unauthorized: Cannot access this employee record''), state_E1)
   \<and> execute env0 (GetAuditLogs all_audit_logs) state_E1 =
       (Inl (Error ''Unauthorized: Only HR Admin can view audit logs''), state_E1)"
proof -
  have bound: "currentContext state_E1 = Some ctx_E1"
    by (simp add: example_defs)
  have facts: "role ctx_E1 = ''Employee''"
    "userId ctx_E1 \<noteq> Some (ue_employeeId update_E2_salary)"
    "\<not> checkPermission (role ctx_E1) Update Employee"
    "\<not> canAccessEmployee (role ctx_E1) (ue_employeeId update_E2_salary) (userId ctx_E1)"
    "employees state_E1 = [employee_E1, employee_E2]"
    "auditLogs state_E1 = []"
    "checkPermission (role ctx_E1) Read Employee"
    "nonempty (ge_employeeId get_E2) = Some ''E2''"
    "findUnique e_id ''E2'' (employees state_E1) = Some employee_E2"
    "\<not> canAccessEmployee (role ctx_E1) (e_id employee_E2) (userId ctx_E1)"
    "role ctx_E1 \<noteq> ''HR_Admin''"
    by (simp_all add: example_defs eval_defs update_E2_salary_def get_E2_def all_audit_logs_def)
  show ?thesis
    using bound facts
      authorization_denial_has_no_effect [OF bound,
        where call = "UpdateEmployee update_E2_salary" and upd = update_E2_salary
          and get = get_E2 and employeeId = "''E2''" and e = employee_E2
          and q = all_audit_logs and E = env0]
    by simp
qed

text \<open>
  C2 fails on the code. \<open>updateAttendance\<close> updates a single record and checks the
  action only; the role Employee is granted \<open>update\<close> on attendance (the matrix comments
  it "Own attendance"). So \<open>E1\<close>, who fails the ownership predicate on the attendance
  record \<open>T3\<close> of \<open>E2\<close>, updates it: the tool returns the changed record, the table
  holds it and an audit entry is written.
\<close>

theorem updateAttendance_skips_ownership:
  "currentContext state_E1 = Some ctx_E1
   \<and> findUnique a_id (ua_attendanceId update_T3_overtime) (attendanceRecords state_E1)
       = Some attendance_E2
   \<and> \<not> canAccessEmployee (role ctx_E1) (a_employeeId attendance_E2) (userId ctx_E1)
   \<and> execute env0 (UpdateAttendance update_T3_overtime) state_E1 =
       (Inr (AttendanceResult (attendance_E2\<lparr>a_overtimeHours := Some 40\<rparr>)),
        state_E1\<lparr>attendanceRecords :=
                   [attendance_E1_a, attendance_E1_b, attendance_E2\<lparr>a_overtimeHours := Some 40\<rparr>],
                 auditLogs :=
                   [\<lparr>au_entityType = ''AttendanceRecord'', au_entityId = ''T3'',
                     au_action = ''Update'', au_performedBy = Some ''E1'',
                     au_details = Some (InputOf (UpdateAttendance update_T3_overtime)),
                     au_timestamp = jan_31\<rparr>]\<rparr>)"
  by (simp add: updateAttendance_def updateAttendance_data_def example_defs eval_defs
      update_T3_overtime_def)

text \<open>
  C3 fails on the code. Of the tools that return several records only the search mode of
  \<open>getEmployee\<close> filters by the ownership predicate; \<open>getContract\<close>,
  \<open>getLetters\<close>, \<open>getAttendance\<close>, \<open>getPayroll\<close> and \<open>getBenefits\<close> return what
  the query by employee id finds. The role Employee is granted \<open>read\<close> on each of these
  entities, so \<open>E1\<close> reads the contract, letter, attendance, payroll and benefit of
  \<open>E2\<close>.
\<close>

theorem reads_not_filtered_by_ownership:
  "currentContext state_E1 = Some ctx_E1
   \<and> \<not> canAccessEmployee (role ctx_E1) ''E2'' (userId ctx_E1)
   \<and> fst (execute env0 (GetContract \<lparr>gc_employeeId = Some ''E2'', gc_contractId = None\<rparr>) state_E1)
       = Inr (ContractList [contract_E2])
   \<and> fst (execute env0 (GetLetters ''E2'') state_E1) = Inr (LetterList [letter_E2])
   \<and> fst (execute env0 (GetAttendance \<lparr>ga_employeeId = ''E2'', ga_startDate = ''2024-01-01'',
                                         ga_endDate = ''2024-01-31''\<rparr>) state_E1)
       = Inr (AttendanceList [attendance_E2])
   \<and> fst (execute env0 (GetPayroll \<lparr>gp_employeeId = Some ''E2'', gp_payrollId = None,
                                      gp_limit = 10\<rparr>) state_E1)
       = Inr (PayrollList [payroll_E2])
   \<and> fst (execute env0 (GetBenefits ''E2'') state_E1) = Inr (BenefitList [benefit_E2])
   \<and> c_employeeId contract_E2 = ''E2'' \<and> l_employeeId letter_E2 = ''E2''
   \<and> a_employeeId attendance_E2 = ''E2'' \<and> p_employeeId payroll_E2 = ''E2''
   \<and> b_employeeId benefit_E2 = ''E2''"
  by (simp add: getContract_def getLetters_def getAttendance_def getPayroll_def getBenefits_def
      attendance_in_range_def example_defs eval_defs)

text \<open>
  C4 fails on the code. The binding is one slot of the process. Alone, the turn of the
  Employee \<open>E1\<close> is refused \<open>archiveEmployee\<close>. When the POST of the HR_Admin
  \<open>A1\<close> runs between the POST of \<open>E1\<close> and the tool invocation of the turn of
  \<open>E1\<close>, that invocation reads the binding of \<open>A1\<close>: it archives \<open>E2\<close> and
  the audit entry names \<open>A1\<close> as the actor.
\<close>

theorem context_leaks_between_turns:
  "fst (run_turns env0 [(1, Post post_E1), (1, Invoke (ArchiveEmployee ''E2''))] state0)
     = [(1, Inl (Error ''Unauthorized: Employee cannot update employee''))]
   \<and> fst (run_turns env0 [(1, Post post_E1), (2, Post post_A1),
                           (1, Invoke (ArchiveEmployee ''E2''))] state0)
     = [(1, Inr (EmployeeResult (employee_E2\<lparr>e_employmentStatus := Archived\<rparr>)))]
   \<and> map au_performedBy
        (auditLogs (snd (run_turns env0 [(1, Post post_E1), (2, Post post_A1),
                                         (1, Invoke (ArchiveEmployee ''E2''))] state0)))
     = [Some ''A1'']
   \<and> rq_authUser post_E1 = Some ''E1'' \<and> rq_authUser post_A1 = Some ''A1''"
  by (simp add: POST_def POST_generate_def createChat_def loadChat_def archiveEmployee_def
      example_defs eval_defs Let_def post_E1_def post_A1_def msg_no_id_def)

text \<open>
  C5. Finalize-reconciliation is idempotent: de-duplicating a message sequence
  concatenated with itself (the same messages, with identical ids, sent twice) gives the
  same sequence, hence the same length and content, as de-duplicating it once. The same
  holds when the messages are sent again after a first de-duplicated result.
\<close>

theorem dedup_twice_same:
  "dedup (ms @ ms) = dedup ms
   \<and> length (dedup (ms @ ms)) = length (dedup ms)
   \<and> dedup (dedup ms @ ms) = dedup ms"
proof -
  have none: "\<And>xs. set xs \<subseteq> set ms \<Longrightarrow> filter (\<lambda>m. mid m \<notin> mid ` set ms) xs = []"
    by (auto simp: filter_empty_conv)
  have a: "keep_last (ms @ ms) = keep_last ms"
    by (simp add: keep_last_append none[OF set_keep_last])
  have "set (keep_last (keep_last ms)) \<subseteq> set ms"
    using set_keep_last[of "keep_last ms"] set_keep_last[of ms] by blast
  then have b: "keep_last (keep_last ms @ ms) = keep_last ms"
    by (simp add: keep_last_append none)
  from a b show ?thesis by (simp add: dedup_keep_last)
qed

text \<open>
  C6. For every message sequence, de-duplication keeps exactly the last occurrence in
  arrival order of each id: the result has one entry per id (a re-sent message replaces
  the earlier entry with its id and is not a second entry), it carries every id of the
  input, a message is kept exactly when no later message has its id, the kept messages
  stand in their arrival order (the result is a subsequence of the input), and the
  messages whose id occurs once are all kept, in their original relative order.
\<close>

theorem dedup_keeps_last_in_order:
  "distinct (map mid (dedup ms))
   \<and> mid ` set (dedup ms) = mid ` set ms
   \<and> (m \<in> set (dedup ms) \<longleftrightarrow> (\<exists>pre post. ms = pre @ m # post \<and> mid m \<notin> mid ` set post))
   \<and> subseq (dedup ms) ms
   \<and> filter (occurs_once ms) (dedup ms) = filter (occurs_once ms) ms"
proof -
  have "filter (occurs_once ms) (keep_last ms) = filter (occurs_once ms) ms"
    by (rule filter_keep_last) (simp add: occurs_once_def)
  then show ?thesis
    using mem_keep_last[of m ms]
    by (simp add: dedup_keep_last distinct_keep_last ids_keep_last subseq_keep_last)
qed

text \<open>
  C7, as stated, fails: the identifier given to a message without one comes from
  \<open>crypto.randomUUID()\<close>, so two runs of finalize on the same input assign different
  identifiers as soon as the generator returns different values.
\<close>

theorem onFinish_ids_differ_between_runs:
  "map mid (onFinish uuid_run_a [msg_no_id]) \<noteq> map mid (onFinish uuid_run_b [msg_no_id])"
  by (simp add: onFinish_def dedup_def has_id_def msg_no_id_def uuid_run_a_def uuid_run_b_def)

text \<open>
  C7, amended. Every message with an empty or missing identifier is assigned, before
  persistence, the next identifier returned by the runtime's random generator (the
  \<open>j\<close>-th such message gets the generator's \<open>j\<close>-th value); a message with a non-empty
  identifier is left as it is; and, the generator never returning the empty string, every
  persisted message has a non-empty identifier.
\<close>

theorem onFinish_assigns_generated_ids:
  assumes "\<And>k. uuid k \<noteq> []"
  shows "(\<forall>m \<in> set (onFinish uuid ms). has_id m)
    \<and> length (normalized uuid 0 ms) = length ms
    \<and> (\<forall>i < length ms. normalized uuid 0 ms ! i =
          (if has_id (ms ! i) then ms ! i
           else (ms ! i)\<lparr>mid := Some (uuid (length (filter (\<lambda>m. \<not> has_id m) (take i ms))))\<rparr>))"
proof -
  have "set (onFinish uuid ms) \<subseteq> set (normalized uuid 0 ms)"
    by (simp add: onFinish_def dedup_keep_last set_keep_last)
  then have "\<forall>m \<in> set (onFinish uuid ms). has_id m"
    using normalized_has_id[of uuid _ 0 ms] assms by blast
  then show ?thesis
    by (simp add: length_normalized normalized_nth)
qed

theorem onFinish_assigns_generated_ids_witness:
  "(\<forall>k. uuid_run_a k \<noteq> [])
   \<and> list_all has_id (onFinish uuid_run_a [msg_no_id, msg_no_id\<lparr>mid := Some ''m-1''\<rparr>])
   \<and> map mid (normalized uuid_run_a 0 [msg_no_id, msg_no_id\<lparr>mid := Some ''m-1''\<rparr>])
       = [Some (uuid_run_a 0), Some ''m-1'']"
proof -
  have h: "\<And>k. uuid_run_a k \<noteq> []" by (simp add: uuid_run_a_def)
  show ?thesis
    using h onFinish_assigns_generated_ids
            [where uuid = uuid_run_a and ms = "[msg_no_id, msg_no_id\<lparr>mid := Some ''m-1''\<rparr>]", OF h]
    by (simp add: has_id_def msg_no_id_def list_all_iff)
qed







text \<open>
  C10. For every caller whose role is granted \<open>create\<close> on attendance (the role
  Employee is) and for every employee id, \<open>recordAttendance\<close> and \<open>requestLeave\<close>
  return the created record and append it to the table, whatever the ownership predicate
  says about the caller and the target employee: it is not consulted.
\<close>

theorem attendance_creation_ignores_ownership:
  assumes "currentContext s = Some ctx"
    and "checkPermission (role ctx) Create Attendance"
  shows "(\<exists>a s'. recordAttendance E rec s = (Inr (AttendanceResult a), s')
            \<and> a_employeeId a = ra_employeeId rec
            \<and> attendanceRecords s' = attendanceRecords s @ [a])
       \<and> (\<exists>a s'. requestLeave E req s = (Inr (AttendanceResult a), s')
            \<and> a_employeeId a = rl_employeeId req
            \<and> a_leaveStatus a = Some Requested
            \<and> attendanceRecords s' = attendanceRecords s @ [a])
       \<and> checkPermission ''Employee'' Create Attendance"
  using assms
  by (simp add: recordAttendance_def requestLeave_def getToolContext_bound
      requirePermission_granted Let_def logAction_def checkPermission_def permissions_def)

text \<open>
  \<open>E1\<close> records attendance and requests leave for \<open>E2\<close>.
\<close>

theorem attendance_creation_ignores_ownership_witness:
  "currentContext state_E1 = Some ctx_E1
   \<and> checkPermission (role ctx_E1) Create Attendance
   \<and> \<not> canAccessEmployee (role ctx_E1) (ra_employeeId record_for_E2) (userId ctx_E1)
   \<and> \<not> canAccessEmployee (role ctx_E1) (rl_employeeId leave_for_E2) (userId ctx_E1)
   \<and> map a_employeeId (attendanceRecords (snd (recordAttendance env0 record_for_E2 state_E1)))
       = [''E1'', ''E1'', ''E2'', ''E2'']
   \<and> map a_employeeId (attendanceRecords (snd (requestLeave env0 leave_for_E2 state_E1)))
       = [''E1'', ''E1'', ''E2'', ''E2'']"
proof -
  have h: "currentContext state_E1 = Some ctx_E1"
    "checkPermission (role ctx_E1) Create Attendance"
    by (simp_all add: example_defs eval_defs)
  have own: "\<not> canAccessEmployee (role ctx_E1) (ra_employeeId record_for_E2) (userId ctx_E1)"
    "\<not> canAccessEmployee (role ctx_E1) (rl_employeeId leave_for_E2) (userId ctx_E1)"
    by (simp_all add: example_defs eval_defs record_for_E2_def leave_for_E2_def)
  have st: "map a_employeeId (attendanceRecords state_E1) = [''E1'', ''E1'', ''E2'']"
    "ra_employeeId record_for_E2 = ''E2''" "rl_employeeId leave_for_E2 = ''E2''"
    by (simp_all add: example_defs record_for_E2_def leave_for_E2_def)
  from attendance_creation_ignores_ownership
         [OF h, where E = env0 and rec = record_for_E2 and req = leave_for_E2]
  show ?thesis using h own st by auto
qed

end
